theory Spec2Isabelle
  imports Main "HOL-Library.Word"
begin

unbundle bit_operations_syntax

section \<open>Errors\<close>

text \<open>
  The TypeScript sources raise plain \<^verbatim>\<open>Error\<close> objects that differ only in their message.
  Every message template of the sources is one constructor; a template with a hole carries
  the text that fills it.
  \<^item> \<open>TransportFailure msg\<close>: an exception thrown by the ledger client library itself
    (\<^verbatim>\<open>client.request\<close>, \<^verbatim>\<open>client.autofill\<close>, \<^verbatim>\<open>client.submitAndWait\<close>); the
    \<^verbatim>\<open>catch\<close> blocks of the service log it and throw it again unchanged.
  \<^item> \<open>MalformedEncoding\<close>, \<open>InvalidTimestamp\<close>: raised by the codec.
  \<^item> \<open>Failed_to_issue c\<close>: \<^verbatim>\<open>Failed to issue credential: ${c}\<close>.
  \<^item> \<open>Result_unknown\<close>: \<^verbatim>\<open>Transaction result is unknown\<close>.
  \<^item> \<open>Type_not_specified\<close>: \<^verbatim>\<open>Credential type not specified\<close>.
  \<^item> \<open>Type_not_found t\<close>: \<^verbatim>\<open>Credential of type ${t} not found\<close>.
  \<^item> \<open>Revoke_not_found\<close>: \<^verbatim>\<open>Credential to revoke not found\<close>.
  \<^item> \<open>Failed_to_revoke c\<close>: \<^verbatim>\<open>Failed to revoke credential: ${c}\<close>.
  \<^item> \<open>Subject_or_Issuer_required\<close>:
    \<^verbatim>\<open>Either Subject or Issuer is required for credential revocation\<close>.
  \<^item> \<open>Failed_to_enable_DepositAuth\<close>: \<^verbatim>\<open>Failed to enable DepositAuth\<close>.
  \<^item> \<open>Issuer_address_not_set\<close>: \<^verbatim>\<open>Issuer address is not set\<close>.
\<close>

datatype error =
    TransportFailure string
  | MalformedEncoding
  | InvalidTimestamp
  | Failed_to_issue string
  | Result_unknown
  | Type_not_specified
  | Type_not_found string
  | Revoke_not_found
  | Failed_to_revoke string
  | Subject_or_Issuer_required
  | Failed_to_enable_DepositAuth
  | Issuer_address_not_set

definition bind_err :: "error + 'a \<Rightarrow> ('a \<Rightarrow> error + 'b) \<Rightarrow> error + 'b" where
  "bind_err r f = (case r of Inl e \<Rightarrow> Inl e | Inr v \<Rightarrow> f v)"

fun map_err :: "('a \<Rightarrow> error + 'b) \<Rightarrow> 'a list \<Rightarrow> error + 'b list" where
  "map_err f [] = Inr []"
| "map_err f (x # xs) =
     bind_err (f x) (\<lambda>y. bind_err (map_err f xs) (\<lambda>ys. Inr (y # ys)))"

text \<open>
  JavaScript truthiness of an optional string: \<^verbatim>\<open>undefined\<close> and the empty string are
  falsy.
\<close>

definition truthy :: "string option \<Rightarrow> bool" where
  "truthy s = (case s of None \<Rightarrow> False | Some v \<Rightarrow> v \<noteq> [])"

section \<open>Credential protocol encoder and decoder\<close>

text \<open>
  Modelled from the spec: \<^verbatim>\<open>encodeText\<close> and \<^verbatim>\<open>decodeHex\<close>, which the sources import
  from the ledger client library as \<^verbatim>\<open>convertStringToHex\<close> and \<^verbatim>\<open>convertHexToString\<close>;
  the library is not part of the repository. A text is the sequence of its bytes
  (\<^typ>\<open>string\<close>, one \<^typ>\<open>char\<close> per byte). The encoder writes two upper-case hexadecimal
  digits per byte. The decoder accepts digits of either case and fails with
  \<open>MalformedEncoding\<close> on input that holds a non-hex character; a digit string of odd
  length encodes no byte sequence and is refused as well.
\<close>

definition hexdigit :: "nat \<Rightarrow> char" where
  "hexdigit n = (if n < 10 then char_of (48 + n) else char_of (55 + n))"

definition hexval :: "char \<Rightarrow> nat option" where
  "hexval c =
     (let k = (of_char c :: nat) in
      if 48 \<le> k \<and> k \<le> 57 then Some (k - 48)
      else if 65 \<le> k \<and> k \<le> 70 then Some (k - 55)
      else if 97 \<le> k \<and> k \<le> 102 then Some (k - 87)
      else None)"

text \<open>Modelled from the spec: \<^verbatim>\<open>encodeText\<close>, two upper-case digits per byte.\<close>

fun encodeText :: "string \<Rightarrow> string" where
  "encodeText [] = []"
| "encodeText (c # cs) =
     hexdigit (of_char c div 16) # hexdigit (of_char c mod 16) # encodeText cs"

text \<open>
  Modelled from the spec: \<^verbatim>\<open>decodeHex\<close>; \<open>hexbytes\<close> reads the digits two by two
  and gives \<open>None\<close> on a character that is no digit and on a last digit without a
  partner.
\<close>

fun hexbytes :: "string \<Rightarrow> string option" where
  "hexbytes [] = Some []"
| "hexbytes [a] = None"
| "hexbytes (a # b # r) =
     (case hexval a of
        None \<Rightarrow> None
      | Some x \<Rightarrow>
          (case hexval b of
             None \<Rightarrow> None
           | Some y \<Rightarrow>
               (case hexbytes r of
                  None \<Rightarrow> None
                | Some bs \<Rightarrow> Some (char_of (16 * x + y) # bs))))"

definition decodeHex :: "string \<Rightarrow> error + string" where
  "decodeHex h = (case hexbytes h of None \<Rightarrow> Inl MalformedEncoding | Some b \<Rightarrow> Inr b)"

text \<open>
  Modelled from the spec: the calendar time that \<^verbatim>\<open>encodeTimestamp\<close> and
  \<^verbatim>\<open>decodeTimestamp\<close> convert. The sources import the two functions from the ledger
  client library, as \<^verbatim>\<open>isoTimeToRippleTime\<close> and \<^verbatim>\<open>rippleTimeToISOTime\<close>, and pass
  ISO 8601 texts, which the scripts write with \<^verbatim>\<open>Date.toISOString()\<close>, as in
  \<^verbatim>\<open>2026-07-01T09:30:15.250Z\<close>; the library is not part of the repository. An ISO
  timestamp is held by its fields: the calendar date, the time of day with its
  milliseconds, and the zone offset in minutes east of UTC (\<open>0\<close> for the designator
  \<^verbatim>\<open>Z\<close>). It is valid when the fields name a moment of the Gregorian calendar.
\<close>

record iso_time =
  iso_year :: nat
  iso_month :: nat
  iso_day :: nat
  iso_hour :: nat
  iso_minute :: nat
  iso_second :: nat
  iso_millisecond :: nat
  iso_offset :: int

definition is_leap :: "nat \<Rightarrow> bool" where
  "is_leap y = (y mod 4 = 0 \<and> (y mod 100 \<noteq> 0 \<or> y mod 400 = 0))"

definition year_length :: "nat \<Rightarrow> nat" where
  "year_length y = (if is_leap y then 366 else 365)"

definition days_in_month :: "nat \<Rightarrow> nat \<Rightarrow> nat" where
  "days_in_month y m =
     (if m = 2 then (if is_leap y then 29 else 28)
      else if m = 4 \<or> m = 6 \<or> m = 9 \<or> m = 11 then 30 else 31)"

definition valid_iso :: "iso_time \<Rightarrow> bool" where
  "valid_iso t =
     (1 \<le> iso_month t \<and> iso_month t \<le> 12 \<and>
      1 \<le> iso_day t \<and> iso_day t \<le> days_in_month (iso_year t) (iso_month t) \<and>
      iso_hour t < 24 \<and> iso_minute t < 60 \<and> iso_second t < 60 \<and>
      iso_millisecond t < 1000 \<and> - 1440 < iso_offset t \<and> iso_offset t < 1440)"

text \<open>
  Modelled from the spec: the conventional Unix time of a timestamp, in whole seconds
  and in milliseconds since 1970-01-01T00:00:00Z. \<open>days_before_year y\<close> is the number
  of days from the first day of 1970 to the first day of the year \<open>y\<close> (negative
  before 1970), and \<open>days_before_month y m\<close> the number of days of the year \<open>y\<close>
  before its month \<open>m\<close>. A zone offset east of UTC names an earlier moment.
\<close>

definition days_before_year :: "int \<Rightarrow> int" where
  "days_before_year y =
     365 * (y - 1970) + ((y - 1) div 4 - (y - 1) div 100 + (y - 1) div 400) - 477"

fun days_from_month :: "nat \<Rightarrow> nat \<Rightarrow> nat \<Rightarrow> nat" where
  "days_from_month y m 0 = 0"
| "days_from_month y m (Suc k) = days_in_month y m + days_from_month y (Suc m) k"

definition days_before_month :: "nat \<Rightarrow> nat \<Rightarrow> nat" where
  "days_before_month y m = days_from_month y 1 (m - 1)"

definition unix_seconds :: "iso_time \<Rightarrow> int" where
  "unix_seconds t =
     (days_before_year (int (iso_year t)) +
      int (days_before_month (iso_year t) (iso_month t)) + int (iso_day t) - 1) * 86400 +
     int (iso_hour t * 3600 + iso_minute t * 60 + iso_second t) - iso_offset t * 60"

definition unix_milliseconds :: "iso_time \<Rightarrow> int" where
  "unix_milliseconds t = unix_seconds t * 1000 + int (iso_millisecond t)"

text \<open>
  Modelled from the spec: the timestamp of a Unix time in whole seconds that is not
  negative. The days are split into whole years from 1970 on, the rest into whole
  months, and the seconds of the day into hours, minutes and seconds. The timestamp is
  written in UTC, and a whole number of seconds has no milliseconds: the issuing script,
  which decodes by hand, computes \<^verbatim>\<open>new Date((credObj.Expiration + 946684800) * 1000)\<close>.
\<close>

function split_years :: "nat \<Rightarrow> nat \<Rightarrow> nat \<times> nat" where
  "split_years y d =
     (if d < year_length y then (y, d) else split_years (Suc y) (d - year_length y))"
  by pat_completeness auto
termination
  by (relation "measure snd") (auto simp: year_length_def)

function split_months :: "nat \<Rightarrow> nat \<Rightarrow> nat \<Rightarrow> nat \<times> nat" where
  "split_months y m d =
     (if 12 \<le> m \<or> d < days_in_month y m then (m, d)
      else split_months y (Suc m) (d - days_in_month y m))"
  by pat_completeness auto
termination
  by (relation "measure (\<lambda>(y, m, d). 12 - m)") auto

definition iso_of_unix :: "int \<Rightarrow> iso_time" where
  "iso_of_unix n =
     (let days = nat (n div 86400);
          s = nat (n mod 86400);
          (y, r) = split_years 1970 days;
          (m, d) = split_months y 1 r
      in \<lparr>iso_year = y, iso_month = m, iso_day = Suc d,
          iso_hour = s div 3600, iso_minute = (s mod 3600) div 60, iso_second = s mod 60,
          iso_millisecond = 0, iso_offset = 0\<rparr>)"

text \<open>
  Modelled from the spec: \<^verbatim>\<open>encodeTimestamp\<close>. The ledger counts whole seconds from its
  own epoch, whose zero point is 2000-01-01T00:00:00Z, a fixed offset after the Unix
  epoch; a moment before the zero point is refused with \<open>InvalidTimestamp\<close>. The offset
  is the constant the issuing script adds back by hand:
  \<^verbatim>\<open>new Date((credObj.Expiration + 946684800) * 1000)\<close>. The spec does not say what
  becomes of a fraction of a second, which a ledger time cannot hold; the Unix time is
  taken to the nearest second, a half going up.
\<close>

definition RIPPLE_EPOCH_DIFF :: int where
  "RIPPLE_EPOCH_DIFF = 946684800"

definition encodeTimestamp :: "iso_time \<Rightarrow> error + int" where
  "encodeTimestamp t =
     (if unix_milliseconds t < RIPPLE_EPOCH_DIFF * 1000 then Inl InvalidTimestamp
      else Inr ((unix_milliseconds t + 500) div 1000 - RIPPLE_EPOCH_DIFF))"

text \<open>Modelled from the spec: \<^verbatim>\<open>decodeTimestamp\<close>, for a ledger time that is not negative.\<close>

definition decodeTimestamp :: "int \<Rightarrow> iso_time" where
  "decodeTimestamp n = iso_of_unix (n + RIPPLE_EPOCH_DIFF)"

text \<open>
  The parts of a Unix time, named for the properties below: the seconds of a timestamp
  within its day, its day within its year, and the days between two new-year days.
\<close>

definition seconds_of_day :: "iso_time \<Rightarrow> nat" where
  "seconds_of_day t = iso_hour t * 3600 + iso_minute t * 60 + iso_second t"

definition day_of_year :: "iso_time \<Rightarrow> nat" where
  "day_of_year t = days_before_month (iso_year t) (iso_month t) + (iso_day t - 1)"

definition days_between :: "nat \<Rightarrow> nat \<Rightarrow> nat" where
  "days_between y0 y = nat (days_before_year (int y) - days_before_year (int y0))"

text \<open>
  The issuing script decodes the expiration it displays by hand, to milliseconds since
  the Unix epoch: \<^verbatim>\<open>new Date((credObj.Expiration + 946684800) * 1000)\<close>.
\<close>

definition script_expiration_ms :: "int \<Rightarrow> int" where
  "script_expiration_ms Expiration = (Expiration + 946684800) * 1000"

section \<open>Wire values and transport replies\<close>

text \<open>
  The transport is the ledger client library. A call either throws (a connection error, a
  timeout, a transaction the node refuses to relay), modelled by \<open>Inl\<close> of the
  exception's message, or returns a response. The service makes at most one submission
  per call (\<^verbatim>\<open>autofill\<close>, \<^verbatim>\<open>sign\<close> and \<^verbatim>\<open>submitAndWait\<close> in a row), so the
  reply to that submission is an argument of the model, and every model of a mutating
  operation returns the list of remote calls it made next to its result.
\<close>

type_synonym 'a reply = "string + 'a"

record wire_memo =
  MemoData :: "string option"
  MemoType :: "string option"
  MemoFormat :: "string option"

text \<open>
  The transactions the sources build. The type of a transaction is the constructor of
  \<open>transaction\<close> that wraps it. Fields of the same name in different objects of the
  sources carry a prefix here (\<open>create_\<close>, \<open>accept_\<close>, \<open>set_\<close>, \<open>entry_\<close>,
  \<open>auth_\<close>, \<open>req_\<close>), since the fields of all records share one name space.
\<close>

text \<open>The \<^verbatim>\<open>CredentialCreate\<close> transaction (\<^verbatim>\<open>CredentialTransaction\<close> in the sources).\<close>

record CredentialTransaction =
  create_Account :: string
  create_Subject :: string
  create_CredentialType :: string
  create_Expiration :: "int option"
  create_URI :: "string option"
  create_Memos :: "wire_memo list option"

text \<open>The \<^verbatim>\<open>CredentialDelete\<close> transaction (\<^verbatim>\<open>CredentialRevokeTransaction\<close>).\<close>

record CredentialRevokeTransaction =
  Account :: string
  CredentialType :: string
  Subject :: "string option"
  Issuer :: "string option"

record CredentialAcceptTransaction =
  accept_Account :: string
  accept_Issuer :: string
  accept_CredentialType :: string

record AccountSetTransaction =
  set_Account :: string
  SetFlag :: nat

datatype transaction =
    CredentialCreate CredentialTransaction
  | CredentialDelete CredentialRevokeTransaction
  | CredentialAccept CredentialAcceptTransaction
  | AccountSet AccountSetTransaction

text \<open>
  A remote call: a read-only \<^verbatim>\<open>client.request\<close> with its command, account and object
  type, or the submission of a transaction.
\<close>

datatype rpc =
    Request string string string
  | Submit transaction

text \<open>
  The metadata of a validated transaction. An affected node is cast by the sources to
  \<^verbatim>\<open>{ CreatedNode?: { LedgerEntryType?: string; LedgerIndex?: string } }\<close>.
  The \<^verbatim>\<open>meta\<close> field of a response may be missing, a string (binary metadata) or an
  object; an empty \<open>TransactionResult\<close> stands for a missing one.
\<close>

record created_node =
  LedgerEntryType :: "string option"
  LedgerIndex :: "string option"

record affected_node =
  CreatedNode :: "created_node option"

record TransactionMetadata =
  TransactionResult :: string
  AffectedNodes :: "affected_node list option"

datatype meta_field = MetaAbsent | MetaString string | MetaObject TransactionMetadata

record tx_response =
  hash :: string
  meta :: meta_field

text \<open>\<^verbatim>\<open>txResult || "Unknown error"\<close>\<close>

definition or_unknown :: "string \<Rightarrow> string" where
  "or_unknown c = (if c = [] then ''Unknown error'' else c)"

section \<open>The credential service\<close>

subsection \<open>Requests and responses\<close>

text \<open>\<^verbatim>\<open>{ data: string; type?: string; format?: string }\<close>\<close>

record memo_info =
  memo_data :: string
  memo_type :: "string option"
  memo_format :: "string option"

record CredentialRequest =
  req_subject :: string
  req_credential :: string
  req_memo :: "memo_info option"
  req_expiration :: "iso_time option"
  req_uri :: "string option"

record CredentialResponse =
  subject :: string
  credential :: string
  accepted :: bool
  expiration :: "iso_time option"
  uri :: "string option"
  memo :: "memo_info option"

text \<open>
  A ledger entry returned by \<^verbatim>\<open>account_objects\<close>, with the fields the sources read.
  \<open>Flags\<close> is the entry's 32-bit flag field; an element of \<open>entry_Memos\<close> is the
  \<^verbatim>\<open>Memo\<close> field of one wrapper object.
\<close>

record credential_entry =
  entry_LedgerEntryType :: "string option"
  entry_Subject :: string
  entry_CredentialType :: string
  Flags :: "32 word"
  entry_Expiration :: "int option"
  entry_URI :: "string option"
  entry_Memos :: "wire_memo option list option"

subsection \<open>issueCredential\<close>

text \<open>\<^verbatim>\<open>...(x && { Field: stringToHex(x) })\<close>: the field is present for a truthy \<open>x\<close> only.\<close>

definition hex_if_truthy :: "string option \<Rightarrow> string option" where
  "hex_if_truthy x =
     (case x of None \<Rightarrow> None | Some v \<Rightarrow> if v = [] then None else Some (encodeText v))"

definition memo_to_wire :: "memo_info \<Rightarrow> wire_memo" where
  "memo_to_wire m =
     \<lparr>MemoData = Some (encodeText (memo_data m)),
      MemoType = hex_if_truthy (memo_type m),
      MemoFormat = hex_if_truthy (memo_format m)\<rparr>"

definition issue_transaction :: "string \<Rightarrow> CredentialRequest \<Rightarrow> error + CredentialTransaction" where
  "issue_transaction wallet request =
     bind_err
       (case req_expiration request of
          None \<Rightarrow> Inr None
        | Some t \<Rightarrow> bind_err (encodeTimestamp t) (\<lambda>n. Inr (Some n)))
       (\<lambda>e. Inr
          \<lparr>create_Account = wallet,
           create_Subject = req_subject request,
           create_CredentialType = encodeText (req_credential request),
           create_Expiration = e,
           create_URI = hex_if_truthy (req_uri request),
           create_Memos =
             (case req_memo request of None \<Rightarrow> None | Some m \<Rightarrow> Some [memo_to_wire m])\<rparr>)"

text \<open>
  The predicate of \<^verbatim>\<open>meta.AffectedNodes.find\<close>: the node has a \<^verbatim>\<open>CreatedNode\<close> whose
  \<^verbatim>\<open>LedgerEntryType\<close> is \<^verbatim>\<open>"Credential"\<close>.
\<close>

definition is_created_credential :: "affected_node \<Rightarrow> bool" where
  "is_created_credential node =
     (case CreatedNode node of None \<Rightarrow> False | Some c \<Rightarrow> LedgerEntryType c = Some ''Credential'')"

text \<open>
  The search of the success branch: the first created Credential node, and its
  \<^verbatim>\<open>LedgerIndex\<close> when that is truthy. \<open>None\<close> is the fall-through to the
  \<^verbatim>\<open>throw\<close> below the branch.
\<close>

definition created_credential_id :: "TransactionMetadata \<Rightarrow> string option" where
  "created_credential_id m =
     (case AffectedNodes m of
        None \<Rightarrow> None
      | Some nodes \<Rightarrow>
          (case find is_created_credential nodes of
             None \<Rightarrow> None
           | Some credentialNode \<Rightarrow>
               (case CreatedNode credentialNode of
                  None \<Rightarrow> None
                | Some c \<Rightarrow>
                    (case LedgerIndex c of
                       None \<Rightarrow> None
                     | Some i \<Rightarrow> if i = [] then None else Some i))))"

text \<open>
  The condition of the claim about the success path: the metadata holds a created
  Credential entry with a (non-empty) \<^verbatim>\<open>LedgerIndex\<close>.
\<close>

definition has_created_credential :: "TransactionMetadata \<Rightarrow> bool" where
  "has_created_credential m =
     (case AffectedNodes m of
        None \<Rightarrow> False
      | Some nodes \<Rightarrow>
          list_ex
            (\<lambda>node. case CreatedNode node of
                      None \<Rightarrow> False
                    | Some c \<Rightarrow> LedgerEntryType c = Some ''Credential'' \<and> truthy (LedgerIndex c))
            nodes)"

definition issue_outcome :: "tx_response reply \<Rightarrow> error + string" where
  "issue_outcome reply =
     (case reply of
        Inl msg \<Rightarrow> Inl (TransportFailure msg)
      | Inr result \<Rightarrow>
          (case meta result of
             MetaObject m \<Rightarrow>
               (if TransactionResult m = ''tesSUCCESS'' then
                  (case created_credential_id m of
                     Some i \<Rightarrow> Inr i
                   | None \<Rightarrow> Inl (Failed_to_issue (or_unknown (TransactionResult m))))
                else Inl (Failed_to_issue (or_unknown (TransactionResult m))))
           | _ \<Rightarrow> Inl Result_unknown))"

definition issueCredential ::
  "string \<Rightarrow> CredentialRequest \<Rightarrow> tx_response reply \<Rightarrow> rpc list \<times> (error + string)" where
  "issueCredential wallet request reply =
     (case issue_transaction wallet request of
        Inl e \<Rightarrow> ([], Inl e)
      | Inr t \<Rightarrow> ([Submit (CredentialCreate t)], issue_outcome reply))"

subsection \<open>getCredentials\<close>

text \<open>\<^verbatim>\<open>...(x && { field: hexToString(x) })\<close>\<close>

definition decode_if_truthy :: "string option \<Rightarrow> error + string option" where
  "decode_if_truthy x =
     (case x of
        None \<Rightarrow> Inr None
      | Some v \<Rightarrow> if v = [] then Inr None else bind_err (decodeHex v) (\<lambda>d. Inr (Some d)))"

text \<open>
  The memo of a response is read from the first element of \<^verbatim>\<open>Memos\<close> only, when that
  element has a \<^verbatim>\<open>Memo\<close>; a missing \<^verbatim>\<open>MemoData\<close> is decoded as the empty text.
\<close>

definition entry_memo :: "credential_entry \<Rightarrow> error + memo_info option" where
  "entry_memo e =
     (case entry_Memos e of
        None \<Rightarrow> Inr None
      | Some [] \<Rightarrow> Inr None
      | Some (None # _) \<Rightarrow> Inr None
      | Some (Some m # _) \<Rightarrow>
          bind_err (decodeHex (case MemoData m of None \<Rightarrow> [] | Some d \<Rightarrow> d)) (\<lambda>d.
          bind_err (decode_if_truthy (MemoType m)) (\<lambda>t.
          bind_err (decode_if_truthy (MemoFormat m)) (\<lambda>f.
            Inr (Some \<lparr>memo_data = d, memo_type = t, memo_format = f\<rparr>)))))"

definition credential_of_entry :: "credential_entry \<Rightarrow> error + CredentialResponse" where
  "credential_of_entry credObj =
     bind_err (decodeHex (entry_CredentialType credObj)) (\<lambda>c.
     bind_err (decode_if_truthy (entry_URI credObj)) (\<lambda>u.
     bind_err (entry_memo credObj) (\<lambda>m.
       Inr \<lparr>subject = entry_Subject credObj,
            credential = c,
            accepted = (Flags credObj AND 0x00010000 \<noteq> 0),
            expiration =
              (case entry_Expiration credObj of
                 None \<Rightarrow> None
               | Some n \<Rightarrow> if n = 0 then None else Some (decodeTimestamp n)),
            uri = u,
            memo = m\<rparr>)))"

text \<open>
  The ledger serialises every blob field as hexadecimal text, two digits for a byte. A
  text is such a serialisation when it has an even number of characters and each of
  them is a hexadecimal digit. An entry is well encoded when the fields the service
  decodes are such texts: the credential type, the URI and the fields of the first memo.
\<close>

definition is_hex :: "string \<Rightarrow> bool" where
  "is_hex h = (even (length h) \<and> list_all (\<lambda>c. hexval c \<noteq> None) h)"

definition opt_hex :: "string option \<Rightarrow> bool" where
  "opt_hex x = (case x of None \<Rightarrow> True | Some v \<Rightarrow> is_hex v)"

definition well_encoded :: "credential_entry \<Rightarrow> bool" where
  "well_encoded e =
     (is_hex (entry_CredentialType e) \<and> opt_hex (entry_URI e) \<and>
      (case entry_Memos e of
         Some (Some m # _) \<Rightarrow> opt_hex (MemoData m) \<and> opt_hex (MemoType m) \<and> opt_hex (MemoFormat m)
       | _ \<Rightarrow> True))"

text \<open>
  What the ledger sends for a credential it stores. \<open>ledger_entry e\<close> is the reply entry
  for the stored credential \<open>e\<close>, whose blob fields (the credential type, the URI and
  the fields of the memos) hold the stored bytes; the ledger writes each of them in
  hexadecimal, with upper-case digits, and the other fields as they are.
\<close>

definition ledger_memo :: "wire_memo \<Rightarrow> wire_memo" where
  "ledger_memo m =
     \<lparr>MemoData = map_option encodeText (MemoData m),
      MemoType = map_option encodeText (MemoType m),
      MemoFormat = map_option encodeText (MemoFormat m)\<rparr>"

definition ledger_entry :: "credential_entry \<Rightarrow> credential_entry" where
  "ledger_entry e =
     e\<lparr>entry_CredentialType := encodeText (entry_CredentialType e),
       entry_URI := map_option encodeText (entry_URI e),
       entry_Memos := map_option (map (map_option ledger_memo)) (entry_Memos e)\<rparr>"

text \<open>
  The \<^verbatim>\<open>Credential\<close> value of a stored credential, as the data model of the
  specification describes it, to compare \<^verbatim>\<open>getCredentials\<close> with: the subject; the
  credential type in its original byte form; \<open>accepted\<close> from the reserved bit of the
  flags; the expiration as a timestamp, when there is one; the URI, when there is one;
  and the attached memo, which is the first of the entry's memos, with its data and its
  optional type and format tags. An optional text that is empty counts as missing.
\<close>

definition present :: "string option \<Rightarrow> string option" where
  "present x = (case x of None \<Rightarrow> None | Some v \<Rightarrow> if v = [] then None else Some v)"

definition memo_value :: "wire_memo \<Rightarrow> memo_info" where
  "memo_value m =
     \<lparr>memo_data = (case MemoData m of None \<Rightarrow> [] | Some d \<Rightarrow> d),
      memo_type = present (MemoType m),
      memo_format = present (MemoFormat m)\<rparr>"

definition credential_value :: "credential_entry \<Rightarrow> CredentialResponse" where
  "credential_value e =
     \<lparr>subject = entry_Subject e,
      credential = entry_CredentialType e,
      accepted = bit (Flags e) 16,
      expiration =
        (case entry_Expiration e of
           None \<Rightarrow> None
         | Some n \<Rightarrow> if n = 0 then None else Some (decodeTimestamp n)),
      uri = present (entry_URI e),
      memo =
        (case entry_Memos e of
           Some (Some m # _) \<Rightarrow> Some (memo_value m)
         | _ \<Rightarrow> None)\<rparr>"

text \<open>
  The reply to the \<^verbatim>\<open>account_objects\<close> request is an argument: \<open>Inl\<close> when the
  request throws, \<open>Inr None\<close> when the result has no \<^verbatim>\<open>account_objects\<close> array.
\<close>

definition credentials_for :: "string option \<Rightarrow> credential_entry list \<Rightarrow> credential_entry list" where
  "credentials_for subj account_objects =
     (case subj of
        None \<Rightarrow> account_objects
      | Some s \<Rightarrow>
          if s = [] then account_objects
          else filter (\<lambda>obj. entry_Subject obj = s) account_objects)"

definition getCredentials ::
  "credential_entry list option reply \<Rightarrow> string option \<Rightarrow> error + CredentialResponse list" where
  "getCredentials response subj =
     (case response of
        Inl msg \<Rightarrow> Inl (TransportFailure msg)
      | Inr None \<Rightarrow> Inr []
      | Inr (Some account_objects) \<Rightarrow>
          map_err credential_of_entry (credentials_for subj account_objects))"

text \<open>
  The revocation script has a second \<^verbatim>\<open>getCredentials\<close> of its own: it keeps the
  entries whose \<^verbatim>\<open>LedgerEntryType\<close> is \<^verbatim>\<open>"Credential"\<close> and decodes no memo. Its
  results have the fields \<^verbatim>\<open>subject\<close>, \<^verbatim>\<open>credentialType\<close>, \<^verbatim>\<open>accepted\<close>,
  \<^verbatim>\<open>expiration\<close> and \<^verbatim>\<open>uri\<close>; they are held in the same record as the service's,
  with \<open>credential\<close> for \<^verbatim>\<open>credentialType\<close> and without a memo.
\<close>

definition script_credential_of_entry :: "credential_entry \<Rightarrow> error + CredentialResponse" where
  "script_credential_of_entry cred =
     bind_err (decodeHex (entry_CredentialType cred)) (\<lambda>c.
     bind_err (decode_if_truthy (entry_URI cred)) (\<lambda>u.
       Inr \<lparr>subject = entry_Subject cred,
            credential = c,
            accepted = (Flags cred AND 0x00010000 \<noteq> 0),
            expiration =
              (case entry_Expiration cred of
                 None \<Rightarrow> None
               | Some n \<Rightarrow> if n = 0 then None else Some (decodeTimestamp n)),
            uri = u,
            memo = None\<rparr>))"

definition script_getCredentials ::
  "credential_entry list option reply \<Rightarrow> error + CredentialResponse list" where
  "script_getCredentials response =
     (case response of
        Inl msg \<Rightarrow> Inl (TransportFailure msg)
      | Inr None \<Rightarrow> Inr []
      | Inr (Some account_objects) \<Rightarrow>
          map_err script_credential_of_entry
            (filter (\<lambda>obj. entry_LedgerEntryType obj = Some ''Credential'') account_objects))"

subsection \<open>revokeCredential\<close>

text \<open>The result check shared by both submission sites of \<^verbatim>\<open>revokeCredential\<close>.\<close>

definition revoke_outcome :: "tx_response reply \<Rightarrow> error + string" where
  "revoke_outcome reply =
     (case reply of
        Inl msg \<Rightarrow> Inl (TransportFailure msg)
      | Inr result \<Rightarrow>
          (case meta result of
             MetaObject m \<Rightarrow>
               (if TransactionResult m = ''tesSUCCESS'' then Inr (hash result)
                else Inl (Failed_to_revoke (or_unknown (TransactionResult m))))
           | _ \<Rightarrow> Inl Result_unknown))"

text \<open>The request \<^verbatim>\<open>getCredentials\<close> sends for the wallet's account.\<close>

definition credentials_request :: "string \<Rightarrow> rpc" where
  "credentials_request wallet = Request ''account_objects'' wallet ''credential''"

text \<open>
  \<open>objects\<close> is the reply to the read of the auto-discovery path and \<open>reply\<close> the reply
  to the submission; a path that makes no such call does not look at them.
\<close>

definition revokeCredential ::
  "string \<Rightarrow> credential_entry list option reply \<Rightarrow> tx_response reply \<Rightarrow>
   string \<Rightarrow> string option \<Rightarrow> string option \<Rightarrow> rpc list \<times> (error + string)" where
  "revokeCredential wallet objects reply credentialType subj issuer =
     (if credentialType = [] then ([], Inl Type_not_specified)
      else if \<not> truthy subj \<and> \<not> truthy issuer then
        (case getCredentials objects None of
           Inl e \<Rightarrow> ([credentials_request wallet], Inl e)
         | Inr credentials \<Rightarrow>
             if length credentials > 0 then
               (case find (\<lambda>cred. credential cred = credentialType) credentials of
                  Some matchedCredential \<Rightarrow>
                    ([credentials_request wallet,
                      Submit (CredentialDelete
                        \<lparr>Account = wallet,
                         CredentialType = encodeText credentialType,
                         Subject = Some (subject matchedCredential),
                         Issuer = None\<rparr>)],
                     revoke_outcome reply)
                | None \<Rightarrow> ([credentials_request wallet], Inl (Type_not_found credentialType)))
             else ([credentials_request wallet], Inl Revoke_not_found))
      else if truthy subj then
        ([Submit (CredentialDelete
            \<lparr>Account = wallet, CredentialType = encodeText credentialType,
             Subject = subj, Issuer = None\<rparr>)],
         revoke_outcome reply)
      else if truthy issuer then
        ([Submit (CredentialDelete
            \<lparr>Account = wallet, CredentialType = encodeText credentialType,
             Subject = None, Issuer = issuer\<rparr>)],
         revoke_outcome reply)
      else ([], Inl Subject_or_Issuer_required))"

section \<open>The accept scenario\<close>

text \<open>
  What \<^verbatim>\<open>runCredentialAcceptScenario\<close> reports on the console: the success banner with the
  transaction hash and the result code, the failure banner (\<^verbatim>\<open>Transaction meta is missing
  or invalid\<close>), or the error caught by its \<^verbatim>\<open>catch\<close> block. The scenario returns
  nothing; the report is all a caller sees. Alice's wallet is given by its address, and
  the issuer address and the credential type are the values read from the environment.
\<close>

datatype accept_report =
    Acceptance_successful string string
  | Acceptance_failed
  | Error_occurred error

definition runCredentialAcceptScenario ::
  "string \<Rightarrow> string option \<Rightarrow> string \<Rightarrow> tx_response reply \<Rightarrow> rpc list \<times> accept_report" where
  "runCredentialAcceptScenario aliceWallet XRPL_ACCOUNT_ADDRESS CREDENTIAL_TYPE reply =
     (case XRPL_ACCOUNT_ADDRESS of
        None \<Rightarrow> ([], Error_occurred Issuer_address_not_set)
      | Some issuerAddress \<Rightarrow>
          if issuerAddress = [] then ([], Error_occurred Issuer_address_not_set)
          else
            ([Submit (CredentialAccept
                \<lparr>accept_Account = aliceWallet,
                 accept_Issuer = issuerAddress,
                 accept_CredentialType = encodeText CREDENTIAL_TYPE\<rparr>)],
             (case reply of
                Inl msg \<Rightarrow> Error_occurred (TransportFailure msg)
              | Inr result \<Rightarrow>
                  (case meta result of
                     MetaObject m \<Rightarrow> Acceptance_successful (hash result) (TransactionResult m)
                   | _ \<Rightarrow> Acceptance_failed))))"

section \<open>Deposit authorization\<close>

subsection \<open>checkAndEnableDepositAuth\<close>

text \<open>
  \<open>accountInfo\<close> is the reply to the \<^verbatim>\<open>account_info\<close> request, reduced to
  \<^verbatim>\<open>account_data.Flags\<close>.
\<close>

definition checkAndEnableDepositAuth ::
  "string \<Rightarrow> 32 word reply \<Rightarrow> tx_response reply \<Rightarrow> rpc list \<times> (error + bool)" where
  "checkAndEnableDepositAuth wallet accountInfo reply =
     (case accountInfo of
        Inl msg \<Rightarrow> ([Request ''account_info'' wallet []], Inl (TransportFailure msg))
      | Inr flags \<Rightarrow>
          (let hasDepositAuth = (flags AND 0x01000000 \<noteq> 0) in
           if \<not> hasDepositAuth then
             ([Request ''account_info'' wallet [],
               Submit (AccountSet \<lparr>set_Account = wallet, SetFlag = 9\<rparr>)],
              (case reply of
                 Inl msg \<Rightarrow> Inl (TransportFailure msg)
               | Inr resultAccountSet \<Rightarrow>
                   (case meta resultAccountSet of
                      MetaObject m \<Rightarrow>
                        if TransactionResult m = ''tesSUCCESS'' then Inr True
                        else Inl Failed_to_enable_DepositAuth
                    | _ \<Rightarrow> Inl Failed_to_enable_DepositAuth)))
           else ([Request ''account_info'' wallet []], Inr False)))"

text \<open>
  The ledger's side of a call, as the comments of the source describe it: the account's
  flags are what \<^verbatim>\<open>account_info\<close> returns, \<^verbatim>\<open>SetFlag: 9\<close> is the flag that enables
  \<^verbatim>\<open>lsfDepositAuth\<close>, the \<^verbatim>\<open>0x01000000\<close> bit, and a transaction changes the ledger only
  when its result is \<^verbatim>\<open>tesSUCCESS\<close>. \<open>code\<close> is the ledger's verdict on a submission.
\<close>

definition ledger_apply :: "string \<Rightarrow> rpc \<Rightarrow> 32 word \<Rightarrow> 32 word" where
  "ledger_apply code call flags =
     (case call of
        Submit (AccountSet a) \<Rightarrow>
          if code = ''tesSUCCESS'' \<and> SetFlag a = 9 then flags OR 0x01000000 else flags
      | _ \<Rightarrow> flags)"

definition ledger_response :: "string \<Rightarrow> tx_response" where
  "ledger_response code =
     \<lparr>hash = ''A1B2C3'', meta = MetaObject \<lparr>TransactionResult = code, AffectedNodes = Some []\<rparr>\<rparr>"

text \<open>
  One call of \<^verbatim>\<open>checkAndEnableDepositAuth\<close> against an account whose flags are \<open>flags\<close>:
  the outcome of the call and the flags afterwards.
\<close>

definition depositAuth_call ::
  "string \<Rightarrow> string \<Rightarrow> 32 word \<Rightarrow> (rpc list \<times> (error + bool)) \<times> 32 word" where
  "depositAuth_call wallet code flags =
     (let out = checkAndEnableDepositAuth wallet (Inr flags) (Inr (ledger_response code))
      in (out, fold (ledger_apply code) (fst out) flags))"

subsection \<open>getCredentialTypePreauths\<close>

text \<open>
  A \<^verbatim>\<open>deposit_preauth\<close> ledger entry; an element of \<open>AuthorizeCredentials\<close> is the
  \<^verbatim>\<open>Credential\<close> object of one wrapper.
\<close>

record authorized_credential =
  auth_Issuer :: string
  auth_CredentialType :: string

record deposit_preauth_entry =
  Authorize :: "string option"
  AuthorizeCredentials :: "authorized_credential list option"

text \<open>\<^verbatim>\<open>{ issuer: string; credentialType: string }\<close>\<close>

record credential_type_preauth =
  issuer :: string
  credentialType :: string

text \<open>
  The function makes one read-only request and no submission; \<open>depositPreauthList\<close> is
  the reply to that request.
\<close>

definition preauths_request :: "string \<Rightarrow> rpc" where
  "preauths_request address = Request ''account_objects'' address ''deposit_preauth''"

definition getCredentialTypePreauths ::
  "string \<Rightarrow> deposit_preauth_entry list option reply \<Rightarrow>
   rpc list \<times> (error + credential_type_preauth list)" where
  "getCredentialTypePreauths address depositPreauthList =
     ([preauths_request address],
      (case depositPreauthList of
         Inl msg \<Rightarrow> Inl (TransportFailure msg)
       | Inr None \<Rightarrow> Inr []
       | Inr (Some account_objects) \<Rightarrow>
           Inr (concat
             (map (\<lambda>obj.
                     case AuthorizeCredentials obj of
                       None \<Rightarrow> []
                     | Some credentials \<Rightarrow>
                         map (\<lambda>cred.
                                \<lparr>issuer = auth_Issuer cred,
                                 credentialType = auth_CredentialType cred\<rparr>)
                           credentials)
                (filter (\<lambda>obj. AuthorizeCredentials obj \<noteq> None) account_objects)))))"

section \<open>Example values\<close>

text \<open>2025-07-01T00:00:00.000Z: Unix time 1751328000, ledger time 804643200.\<close>

definition example_time :: iso_time where
  "example_time =
     \<lparr>iso_year = 2025, iso_month = 7, iso_day = 1,
      iso_hour = 0, iso_minute = 0, iso_second = 0, iso_millisecond = 0, iso_offset = 0\<rparr>"

definition example_request :: CredentialRequest where
  "example_request =
     \<lparr>req_subject = ''rAlice'', req_credential = ''ExamCert'', req_memo = None,
      req_expiration = Some example_time, req_uri = None\<rparr>"

definition example_create :: CredentialTransaction where
  "example_create =
     \<lparr>create_Account = ''rIssuer'', create_Subject = ''rAlice'',
      create_CredentialType = encodeText ''ExamCert'', create_Expiration = Some 804643200,
      create_URI = None, create_Memos = None\<rparr>"

definition example_meta :: "string \<Rightarrow> affected_node list \<Rightarrow> tx_response" where
  "example_meta code nodes =
     \<lparr>hash = ''E3FE6EA3'',
      meta = MetaObject \<lparr>TransactionResult = code, AffectedNodes = Some nodes\<rparr>\<rparr>"

definition example_node :: "string \<Rightarrow> string option \<Rightarrow> affected_node" where
  "example_node kind index =
     \<lparr>CreatedNode = Some \<lparr>LedgerEntryType = Some kind, LedgerIndex = index\<rparr>\<rparr>"

text \<open>A credential entry of type \<^verbatim>\<open>"AB"\<close> (hex \<^verbatim>\<open>4142\<close>) with one memo.\<close>

definition example_entry :: "string \<Rightarrow> 32 word \<Rightarrow> credential_entry" where
  "example_entry subj flags =
     \<lparr>entry_LedgerEntryType = Some ''Credential'', entry_Subject = subj,
      entry_CredentialType = ''4142'', Flags = flags, entry_Expiration = Some 804643200,
      entry_URI = None,
      entry_Memos = Some [Some \<lparr>MemoData = Some ''4869'', MemoType = None, MemoFormat = None\<rparr>]\<rparr>"

text \<open>The credential the ledger stores behind that entry.\<close>

definition example_stored :: "string \<Rightarrow> 32 word \<Rightarrow> credential_entry" where
  "example_stored subj flags =
     \<lparr>entry_LedgerEntryType = Some ''Credential'', entry_Subject = subj,
      entry_CredentialType = ''AB'', Flags = flags, entry_Expiration = Some 804643200,
      entry_URI = None,
      entry_Memos = Some [Some \<lparr>MemoData = Some ''Hi'', MemoType = None, MemoFormat = None\<rparr>]\<rparr>"

definition example_credential :: "string \<Rightarrow> bool \<Rightarrow> CredentialResponse" where
  "example_credential subj acc =
     \<lparr>subject = subj, credential = ''AB'', accepted = acc, expiration = Some example_time,
      uri = None,
      memo = Some \<lparr>memo_data = ''Hi'', memo_type = None, memo_format = None\<rparr>\<rparr>"

text \<open>
  A \<^verbatim>\<open>deposit_preauth\<close> entry that authorizes credentials of type \<^verbatim>\<open>"AB"\<close>, stored
  as \<^verbatim>\<open>4142\<close>.
\<close>

definition example_preauth :: deposit_preauth_entry where
  "example_preauth =
     \<lparr>Authorize = None,
      AuthorizeCredentials =
        Some [\<lparr>auth_Issuer = ''rIssuer'', auth_CredentialType = ''4142''\<rparr>]\<rparr>"

section \<open>Properties of the codec\<close>

lemma hexval_hexdigit: "n < 16 \<Longrightarrow> hexval (hexdigit n) = Some n"
  by (simp add: hexval_def hexdigit_def Let_def)

lemma hexbytes_encodeText: "hexbytes (encodeText b) = Some b"
proof (induction b)
  case Nil
  show ?case by simp
next
  case (Cons c cs)
  have hi: "(of_char c :: nat) div 16 < 16"
    using nat_of_char_less_256 [of c] by arith
  have lo: "(of_char c :: nat) mod 16 < 16"
    by simp
  show ?case
    using Cons.IH by (simp add: hexval_hexdigit [OF hi] hexval_hexdigit [OF lo])
qed

lemma hexbytes_Some_hex: "hexbytes h = Some b \<Longrightarrow> c \<in> set h \<Longrightarrow> hexval c \<noteq> None"
proof (induction h arbitrary: b rule: hexbytes.induct)
  case 1
  then show ?case by simp
next
  case (2 a)
  then show ?case by simp
next
  case (3 a b r)
  then show ?case
    by (fastforce split: option.splits)
qed

lemma hexbytes_non_hex: "c \<in> set h \<Longrightarrow> hexval c = None \<Longrightarrow> hexbytes h = None"
  using hexbytes_Some_hex [of h _ c] by (cases "hexbytes h") auto

text \<open>
  Claim C8. Decoding the hex text produced by the text encoder gives back the byte string
  unchanged, for every byte string; and the decoder fails with \<open>MalformedEncoding\<close> on
  every input that contains a character which is not a hexadecimal digit.
\<close>

theorem decodeHex_encodeText_roundtrip:
  "decodeHex (encodeText b) = Inr b \<and>
   ((\<exists>c \<in> set h. hexval c = None) \<longrightarrow> decodeHex h = Inl MalformedEncoding)"
  by (auto simp: decodeHex_def hexbytes_encodeText hexbytes_non_hex)

theorem decodeHex_encodeText_roundtrip_witness:
  "decodeHex (encodeText ''ExamCert'') = Inr ''ExamCert'' \<and>
   (\<exists>c \<in> set ''4G''. hexval c = None) \<and> decodeHex ''4G'' = Inl MalformedEncoding"
proof -
  have bad: "\<exists>c \<in> set ''4G''. hexval c = None"
    by (simp add: hexval_def)
  show ?thesis
    using bad decodeHex_encodeText_roundtrip [of "''ExamCert''" "''4G''"] by blast
qed

subsection \<open>Timestamps\<close>

text \<open>The script's decoding by hand adds the same offset, and gives milliseconds.\<close>

lemma script_expiration_offset: "script_expiration_ms n = 1000 * (n + RIPPLE_EPOCH_DIFF)"
  by (simp add: script_expiration_ms_def RIPPLE_EPOCH_DIFF_def)

lemma div_pred:
  fixes x k :: int
  assumes "0 < k"
  shows "(x - 1) div k = x div k - (if x mod k = 0 then 1 else 0)"
proof (cases "x mod k = 0")
  case True
  then have "x = k * (x div k)"
    using mult_div_mod_eq [of k x] by simp
  then have e: "x - 1 = k * (x div k - 1) + (k - 1)"
    by (simp add: algebra_simps)
  have "(x - 1) div k = x div k - 1"
    by (rule int_div_pos_eq [OF e]) (use assms in auto)
  with True show ?thesis by simp
next
  case False
  have m: "0 \<le> x mod k" "x mod k < k"
    using assms by simp_all
  have e: "x - 1 = k * (x div k) + (x mod k - 1)"
    by simp
  have "(x - 1) div k = x div k"
    by (rule int_div_pos_eq [OF e]) (use assms False m in auto)
  with False show ?thesis by simp
qed

lemma year_step:
  "days_before_year (int (Suc y)) = days_before_year (int y) + int (year_length y)"
proof -
  have a: "int y mod 4 = 0 \<longleftrightarrow> y mod 4 = 0" "int y mod 100 = 0 \<longleftrightarrow> y mod 100 = 0"
    "int y mod 400 = 0 \<longleftrightarrow> y mod 400 = 0"
    by presburger+
  have d: "y mod 400 = 0 \<Longrightarrow> y mod 100 = 0" "y mod 100 = 0 \<Longrightarrow> y mod 4 = 0"
    by presburger+
  show ?thesis
    using d
    by (auto simp add: days_before_year_def year_length_def is_leap_def
        div_pred [of 4 "int y"] div_pred [of 100 "int y"] div_pred [of 400 "int y"] a)
qed

lemma days_before_year_add:
  "\<exists>n. days_before_year (int (y + k)) = days_before_year (int y) + int n"
proof (induction k)
  case 0
  show ?case by simp
next
  case (Suc k)
  then obtain n where n: "days_before_year (int (y + k)) = days_before_year (int y) + int n" ..
  have "days_before_year (int (y + Suc k)) =
      days_before_year (int y) + int (n + year_length (y + k))"
    using year_step [of "y + k"] n by simp
  then show ?case ..
qed

lemma days_between_self: "days_between y y = 0"
  by (simp add: days_between_def)

lemma days_between_Suc:
  "days_between y0 (Suc (y0 + k)) = year_length y0 + days_between (Suc y0) (Suc y0 + k)"
proof -
  obtain n where n: "days_before_year (int (Suc y0 + k)) = days_before_year (int (Suc y0)) + int n"
    using days_before_year_add [of "Suc y0" k] ..
  then show ?thesis
    using year_step [of y0] by (simp add: days_between_def)
qed

lemma split_years_correct:
  "r < year_length (y0 + k) \<Longrightarrow> split_years y0 (days_between y0 (y0 + k) + r) = (y0 + k, r)"
proof (induction k arbitrary: y0)
  case 0
  then show ?case
    by (subst split_years.simps) (simp add: days_between_self)
next
  case (Suc k)
  from Suc.prems have r: "r < year_length (Suc y0 + k)" by simp
  have "split_years y0 (days_between y0 (y0 + Suc k) + r) =
        split_years (Suc y0) (days_between (Suc y0) (Suc y0 + k) + r)"
    by (subst split_years.simps) (simp add: days_between_Suc)
  with Suc.IH [OF r] show ?case by simp
qed

lemma days_from_month_add:
  "days_from_month y m (a + b) = days_from_month y m a + days_from_month y (m + a) b"
  by (induction a arbitrary: m) simp_all

lemma split_months_correct:
  "m0 + k \<le> 12 \<Longrightarrow> r < days_in_month y (m0 + k) \<Longrightarrow>
   split_months y m0 (days_from_month y m0 k + r) = (m0 + k, r)"
proof (induction k arbitrary: m0)
  case 0
  then show ?case
    by (subst split_months.simps) simp
next
  case (Suc k)
  from Suc.prems have p: "Suc m0 + k \<le> 12" "r < days_in_month y (Suc m0 + k)" by simp_all
  from Suc.prems have "\<not> 12 \<le> m0" by simp
  then have "split_months y m0 (days_from_month y m0 (Suc k) + r) =
        split_months y (Suc m0) (days_from_month y (Suc m0) k + r)"
    by (subst split_months.simps) simp
  with Suc.IH [OF p] show ?case by simp
qed

lemma year_days: "days_from_month y 1 12 = year_length y"
  by (simp add: eval_nat_numeral days_in_month_def year_length_def)

lemma day_of_year_bound:
  assumes "1 \<le> m" "m \<le> 12" "1 \<le> d" "d \<le> days_in_month y m"
  shows "days_before_month y m + (d - 1) < year_length y"
proof -
  have "12 = (m - 1) + (Suc (12 - m))" using assms by simp
  then have "days_from_month y 1 12 =
      days_from_month y 1 (m - 1) + days_from_month y (1 + (m - 1)) (Suc (12 - m))"
    by (metis days_from_month_add)
  also have "\<dots> = days_from_month y 1 (m - 1) + (days_in_month y m + days_from_month y (Suc m) (12 - m))"
    using assms by simp
  finally show ?thesis
    using assms by (simp add: year_days [symmetric] days_before_month_def)
qed


lemma seconds_mod_60: "s < 60 \<Longrightarrow> (h * 3600 + m * 60 + s) mod 60 = (s::nat)"
proof -
  assume b: "s < 60"
  have "h * 3600 + m * 60 + s = s + 60 * (h * 60 + m)" by simp
  then have "(h * 3600 + m * 60 + s) mod 60 = (s + 60 * (h * 60 + m)) mod 60" by (rule arg_cong)
  also have "\<dots> = s mod 60" by (rule mod_mult_self2)
  finally show ?thesis using b by simp
qed

lemma nat_div_day: "s < 86400 \<Longrightarrow> nat (int (a * 86400 + s) div 86400) = (a::nat)"
proof -
  assume b: "s < 86400"
  have "int (a * 86400 + s) div 86400 = int ((a * 86400 + s) div 86400)"
    by (simp only: zdiv_int of_nat_numeral)
  also have "(a * 86400 + s) div 86400 = a" using b by simp
  finally show ?thesis by simp
qed

lemma nat_mod_day: "s < 86400 \<Longrightarrow> nat (int (a * 86400 + s) mod 86400) = (s::nat)"
proof -
  assume b: "s < 86400"
  have "int (a * 86400 + s) mod 86400 = int ((a * 86400 + s) mod 86400)"
    by (simp only: zmod_int of_nat_numeral)
  also have "(a * 86400 + s) mod 86400 = s" using b by simp
  finally show ?thesis by simp
qed

lemma seconds_of_day_bound: "valid_iso t \<Longrightarrow> seconds_of_day t < 86400"
  by (simp add: valid_iso_def seconds_of_day_def)

lemma seconds_of_day_split:
  assumes "valid_iso t"
  shows "seconds_of_day t div 3600 = iso_hour t"
    and "(seconds_of_day t mod 3600) div 60 = iso_minute t"
    and "seconds_of_day t mod 60 = iso_second t"
proof -
  from assms have b: "iso_minute t < 60" "iso_second t < 60"
    by (simp_all add: valid_iso_def)
  then have r: "iso_minute t * 60 + iso_second t < 3600" by simp
  have e: "seconds_of_day t = iso_hour t * 3600 + (iso_minute t * 60 + iso_second t)"
    by (simp add: seconds_of_day_def)
  from r show "seconds_of_day t div 3600 = iso_hour t"
    by (simp add: e)
  from r have m: "seconds_of_day t mod 3600 = iso_minute t * 60 + iso_second t"
    by (simp add: e)
  from b show "(seconds_of_day t mod 3600) div 60 = iso_minute t"
    by (simp add: m)
  from b(2) show "seconds_of_day t mod 60 = iso_second t"
    unfolding seconds_of_day_def by (rule seconds_mod_60)
qed

lemma unix_seconds_split:
  "unix_seconds t =
     (days_before_year (int (iso_year t)) + int (day_of_year t)) * 86400 + int (seconds_of_day t)
       - iso_offset t * 60"
  if "valid_iso t"
proof -
  from that have "1 \<le> iso_day t" by (simp add: valid_iso_def)
  then have "int (iso_day t - 1) = int (iso_day t) - 1" by simp
  then show ?thesis
    by (simp add: unix_seconds_def day_of_year_def seconds_of_day_def)
qed

lemma day_of_year_less: "valid_iso t \<Longrightarrow> day_of_year t < year_length (iso_year t)"
  unfolding day_of_year_def by (rule day_of_year_bound) (simp_all add: valid_iso_def)

lemma days_before_1970: "days_before_year 1970 = 0"
  by (simp add: days_before_year_def)

lemma before_1970_negative:
  assumes v: "valid_iso t" and y: "iso_year t < 1970" and z: "iso_offset t = 0"
  shows "unix_seconds t < 0"
proof -
  obtain n where "days_before_year (int (Suc (iso_year t) + (1969 - iso_year t))) =
      days_before_year (int (Suc (iso_year t))) + int n"
    using days_before_year_add ..
  moreover have "Suc (iso_year t) + (1969 - iso_year t) = 1970" using y by simp
  ultimately have "days_before_year (int (Suc (iso_year t))) \<le> 0"
    using days_before_1970 by simp
  with year_step [of "iso_year t"] day_of_year_less [OF v]
  have "days_before_year (int (iso_year t)) + int (day_of_year t) \<le> - 1"
    by simp
  then have "(days_before_year (int (iso_year t)) + int (day_of_year t)) * 86400 \<le> - 86400"
    by simp
  with seconds_of_day_bound [OF v] show ?thesis
    by (simp add: unix_seconds_split [OF v] z)
qed

lemma iso_of_unix_seconds:
  assumes v: "valid_iso t" and y: "1970 \<le> iso_year t"
    and f: "iso_millisecond t = 0" and z: "iso_offset t = 0"
  shows "iso_of_unix (unix_seconds t) = t"
proof -
  let ?y = "iso_year t"
  obtain k where k: "?y = 1970 + k" using le_Suc_ex [OF y] by blast
  obtain n where n: "days_before_year (int (1970 + k)) = days_before_year (int 1970) + int n"
    using days_before_year_add ..
  then have db: "days_before_year (int ?y) = int (days_between 1970 ?y)"
    using days_before_1970 by (simp add: days_between_def k)
  let ?days = "days_between 1970 ?y + day_of_year t"
  have u: "unix_seconds t = int (?days * 86400 + seconds_of_day t)"
    by (simp add: unix_seconds_split [OF v] db z)
  have sb: "seconds_of_day t < 86400" by (rule seconds_of_day_bound [OF v])
  have d: "nat (unix_seconds t div 86400) = ?days"
    unfolding u by (rule nat_div_day [OF sb])
  have s: "nat (unix_seconds t mod 86400) = seconds_of_day t"
    unfolding u by (rule nat_mod_day [OF sb])
  have sy: "split_years 1970 ?days = (?y, day_of_year t)"
    using split_years_correct [of "day_of_year t" 1970 k] day_of_year_less [OF v]
    by (simp add: k)
  from v have m: "1 \<le> iso_month t" "iso_month t \<le> 12" "1 \<le> iso_day t"
      "iso_day t \<le> days_in_month ?y (iso_month t)"
    by (simp_all add: valid_iso_def)
  have sm: "split_months ?y 1 (day_of_year t) = (iso_month t, iso_day t - 1)"
    using split_months_correct [of 1 "iso_month t - 1" "iso_day t - 1" ?y] m
    by (simp add: day_of_year_def days_before_month_def)
  from sm have sm': "split_months ?y (Suc 0) (day_of_year t) = (iso_month t, iso_day t - 1)"
    by (simp del: split_months.simps)
  have "iso_of_unix (unix_seconds t) =
      \<lparr>iso_year = ?y, iso_month = iso_month t, iso_day = Suc (iso_day t - 1),
       iso_hour = iso_hour t, iso_minute = iso_minute t, iso_second = iso_second t,
       iso_millisecond = 0, iso_offset = 0\<rparr>"
    by (simp add: iso_of_unix_def d s sy sm' seconds_of_day_split [OF v]
        del: split_years.simps split_months.simps)
  with m(3) f z show ?thesis
    by simp
qed

lemma iso_of_unix_whole: "iso_millisecond (iso_of_unix n) = 0 \<and> iso_offset (iso_of_unix n) = 0"
  by (simp add: iso_of_unix_def Let_def split: prod.splits del: split_years.simps split_months.simps)

lemma nearest_second: "(s * 1000 + 500) div 1000 = (s::int)"
  by simp


text \<open>The zero point of the ledger epoch is the first second of the year 2000.\<close>

lemma ledger_epoch_zero:
  "unix_seconds \<lparr>iso_year = 2000, iso_month = 1, iso_day = 1,
      iso_hour = 0, iso_minute = 0, iso_second = 0,
      iso_millisecond = 0, iso_offset = 0\<rparr> = RIPPLE_EPOCH_DIFF"
  by (simp add: unix_seconds_def days_before_year_def days_before_month_def RIPPLE_EPOCH_DIFF_def)

lemma days_from_month_step:
  "0 < k \<Longrightarrow> days_from_month y m k = days_in_month y m + days_from_month y (Suc m) (k - 1)"
  by (cases k) simp_all

lemma example_time_seconds: "unix_seconds example_time = 1751328000"
  by (simp add: example_time_def unix_seconds_def days_before_year_def days_before_month_def
      days_from_month_step days_in_month_def is_leap_def)

lemma example_time_milliseconds: "unix_milliseconds example_time = 1751328000000"
  by (simp add: unix_milliseconds_def example_time_seconds) (simp add: example_time_def)

lemma example_time_encoded: "encodeTimestamp example_time = Inr 804643200"
  by (simp add: encodeTimestamp_def example_time_milliseconds RIPPLE_EPOCH_DIFF_def)

lemma example_time_decoded: "decodeTimestamp 804643200 = example_time"
  by (simp add: decodeTimestamp_def iso_of_unix_def RIPPLE_EPOCH_DIFF_def example_time_def
      year_length_def is_leap_def days_in_month_def)

lemma example_time_valid: "valid_iso example_time"
  by (simp add: example_time_def valid_iso_def days_in_month_def)

text \<open>
  Claim C9, as amended. For a valid timestamp at or after the zero point of the ledger
  epoch that is written in UTC with a whole number of seconds the codec round-trips:
  encoding succeeds, the encoding is the Unix time in seconds moved by the fixed offset,
  and decoding it gives the timestamp back. A timestamp with a fraction of a second, or
  with another zone offset, is not given back: no ledger time decodes to it. For a
  timestamp before the zero point encoding fails with \<open>InvalidTimestamp\<close>.
\<close>

theorem timestamp_roundtrip:
  "valid_iso t \<Longrightarrow>
   (RIPPLE_EPOCH_DIFF * 1000 \<le> unix_milliseconds t \<and>
    iso_millisecond t = 0 \<and> iso_offset t = 0 \<longrightarrow>
      encodeTimestamp t = Inr (unix_seconds t - RIPPLE_EPOCH_DIFF) \<and>
      decodeTimestamp (unix_seconds t - RIPPLE_EPOCH_DIFF) = t) \<and>
   (iso_millisecond t \<noteq> 0 \<or> iso_offset t \<noteq> 0 \<longrightarrow> decodeTimestamp n \<noteq> t) \<and>
   (unix_milliseconds t < RIPPLE_EPOCH_DIFF * 1000 \<longrightarrow>
      encodeTimestamp t = Inl InvalidTimestamp)"
proof -
  assume v: "valid_iso t"
  have whole: "encodeTimestamp t = Inr (unix_seconds t - RIPPLE_EPOCH_DIFF) \<and>
      decodeTimestamp (unix_seconds t - RIPPLE_EPOCH_DIFF) = t"
    if late: "RIPPLE_EPOCH_DIFF * 1000 \<le> unix_milliseconds t"
      and f: "iso_millisecond t = 0" and z: "iso_offset t = 0"
  proof -
    from f have ms: "unix_milliseconds t = unix_seconds t * 1000"
      by (simp add: unix_milliseconds_def)
    from late have "0 \<le> unix_seconds t"
      by (simp add: ms RIPPLE_EPOCH_DIFF_def)
    with before_1970_negative [OF v _ z] have "1970 \<le> iso_year t"
      by (cases "iso_year t < 1970") auto
    from iso_of_unix_seconds [OF v this f z]
    have "decodeTimestamp (unix_seconds t - RIPPLE_EPOCH_DIFF) = t"
      by (simp add: decodeTimestamp_def)
    moreover from late have "encodeTimestamp t = Inr (unix_seconds t - RIPPLE_EPOCH_DIFF)"
      by (simp add: encodeTimestamp_def ms nearest_second)
    ultimately show ?thesis by simp
  qed
  have part: "decodeTimestamp n \<noteq> t" if "iso_millisecond t \<noteq> 0 \<or> iso_offset t \<noteq> 0"
    using that iso_of_unix_whole [of "n + RIPPLE_EPOCH_DIFF"]
    by (auto simp: decodeTimestamp_def)
  have early: "encodeTimestamp t = Inl InvalidTimestamp"
    if "unix_milliseconds t < RIPPLE_EPOCH_DIFF * 1000"
    using that by (simp add: encodeTimestamp_def)
  from whole part early show ?thesis by blast
qed

theorem timestamp_roundtrip_witness:
  "valid_iso example_time \<and>
   RIPPLE_EPOCH_DIFF * 1000 \<le> unix_milliseconds example_time \<and>
   iso_millisecond example_time = 0 \<and> iso_offset example_time = 0 \<and>
   encodeTimestamp example_time = Inr 804643200 \<and>
   decodeTimestamp 804643200 = example_time \<and>
   valid_iso (example_time\<lparr>iso_millisecond := 250\<rparr>) \<and>
   iso_millisecond (example_time\<lparr>iso_millisecond := 250\<rparr>) \<noteq> 0 \<and>
   decodeTimestamp 804643200 \<noteq> example_time\<lparr>iso_millisecond := 250\<rparr> \<and>
   valid_iso (example_time\<lparr>iso_year := 1999\<rparr>) \<and>
   unix_milliseconds (example_time\<lparr>iso_year := 1999\<rparr>) < RIPPLE_EPOCH_DIFF * 1000 \<and>
   encodeTimestamp (example_time\<lparr>iso_year := 1999\<rparr>) = Inl InvalidTimestamp"
proof -
  let ?old = "example_time\<lparr>iso_year := 1999\<rparr>"
  let ?part = "example_time\<lparr>iso_millisecond := 250\<rparr>"
  have v: "valid_iso ?old"
    by (simp add: example_time_def valid_iso_def days_in_month_def)
  have vp: "valid_iso ?part"
    by (simp add: example_time_def valid_iso_def days_in_month_def)
  have w: "iso_millisecond example_time = 0" "iso_offset example_time = 0"
    by (simp_all add: example_time_def)
  have p: "iso_millisecond ?part \<noteq> 0"
    by simp
  have u: "unix_seconds ?old = 930787200"
    by (simp add: example_time_def unix_seconds_def days_before_year_def days_before_month_def
        days_from_month_step days_in_month_def is_leap_def)
  have um: "unix_milliseconds ?old = 930787200000"
    by (simp add: unix_milliseconds_def u) (simp add: example_time_def)
  have late: "RIPPLE_EPOCH_DIFF * 1000 \<le> unix_milliseconds example_time"
    by (simp add: example_time_milliseconds RIPPLE_EPOCH_DIFF_def)
  have early: "unix_milliseconds ?old < RIPPLE_EPOCH_DIFF * 1000"
    by (simp add: um RIPPLE_EPOCH_DIFF_def)
  from timestamp_roundtrip [OF example_time_valid] late w
  have 1: "encodeTimestamp example_time = Inr (unix_seconds example_time - RIPPLE_EPOCH_DIFF)"
    and 2: "decodeTimestamp (unix_seconds example_time - RIPPLE_EPOCH_DIFF) = example_time"
    by blast+
  have d: "unix_seconds example_time - RIPPLE_EPOCH_DIFF = 804643200"
    by (simp add: example_time_seconds RIPPLE_EPOCH_DIFF_def)
  from timestamp_roundtrip [OF vp, of 804643200] p
  have 3: "decodeTimestamp 804643200 \<noteq> ?part"
    by blast
  from timestamp_roundtrip [OF v] early
  have 4: "encodeTimestamp ?old = Inl InvalidTimestamp"
    by blast
  from example_time_valid late w 1 2 vp p 3 v early 4 show ?thesis
    by (simp only: d) simp
qed

text \<open>
  Claim C9 as stated lets every valid timestamp from the zero point on round-trip. The
  scripts pass what \<^verbatim>\<open>Date.toISOString()\<close> writes, to the millisecond:
  2025-07-01T00:00:00.500Z is valid and later than the zero point, its encoding is the
  ledger time 804643201, and that decodes to 2025-07-01T00:00:01.000Z.
\<close>

theorem timestamp_fraction_not_restored:
  "valid_iso (example_time\<lparr>iso_millisecond := 500\<rparr>) \<and>
   RIPPLE_EPOCH_DIFF * 1000 \<le> unix_milliseconds (example_time\<lparr>iso_millisecond := 500\<rparr>) \<and>
   encodeTimestamp (example_time\<lparr>iso_millisecond := 500\<rparr>) = Inr 804643201 \<and>
   decodeTimestamp 804643201 = example_time\<lparr>iso_second := 1\<rparr> \<and>
   decodeTimestamp 804643201 \<noteq> example_time\<lparr>iso_millisecond := 500\<rparr>"
proof -
  let ?t = "example_time\<lparr>iso_millisecond := 500\<rparr>"
  have v: "valid_iso ?t"
    by (simp add: example_time_def valid_iso_def days_in_month_def)
  have s: "unix_seconds ?t = 1751328000"
    using example_time_seconds by (simp add: unix_seconds_def)
  have m: "unix_milliseconds ?t = 1751328000500"
    by (simp add: unix_milliseconds_def s)
  have late: "RIPPLE_EPOCH_DIFF * 1000 \<le> unix_milliseconds ?t"
    by (simp add: m RIPPLE_EPOCH_DIFF_def)
  have e: "encodeTimestamp ?t = Inr 804643201"
    by (simp add: encodeTimestamp_def m RIPPLE_EPOCH_DIFF_def)
  have d: "decodeTimestamp 804643201 = example_time\<lparr>iso_second := 1\<rparr>"
    by (simp add: decodeTimestamp_def iso_of_unix_def RIPPLE_EPOCH_DIFF_def example_time_def
        year_length_def is_leap_def days_in_month_def)
  have n: "example_time\<lparr>iso_second := 1\<rparr> \<noteq> ?t"
    by (simp add: example_time_def)
  from v late e d n show ?thesis
    by simp
qed

section \<open>Properties of the credential service\<close>

lemma accepted_bit: "((w :: 32 word) AND 0x00010000 \<noteq> 0) = bit w 16"
proof -
  have "(0x00010000 :: 32 word) = 2 ^ 16" by simp
  then show ?thesis
    by (simp only: and_exp_eq_0_iff_not_bit) simp
qed

lemma bind_err_Inr: "bind_err r f = Inr y \<longleftrightarrow> (\<exists>v. r = Inr v \<and> f v = Inr y)"
  by (cases r) (simp_all add: bind_err_def)

lemma map_err_Inr: "map_err f xs = Inr ys \<Longrightarrow> list_all2 (\<lambda>x y. f x = Inr y) xs ys"
  by (induction xs arbitrary: ys) (auto simp: bind_err_Inr)

lemma map_err_total: "(\<And>x. x \<in> set xs \<Longrightarrow> \<exists>y. f x = Inr y) \<Longrightarrow> \<exists>ys. map_err f xs = Inr ys"
  by (induction xs) (auto simp: bind_err_Inr)

lemma credential_of_entry_accepted:
  "credential_of_entry e = Inr c \<Longrightarrow> accepted c = bit (Flags e) 16"
  by (auto simp: credential_of_entry_def bind_err_Inr accepted_bit)

lemma find_Some_set: "find P xs = Some x \<Longrightarrow> x \<in> set xs \<and> P x"
  by (induction xs) (auto split: if_splits)

lemma find_None_all: "find P xs = None \<longleftrightarrow> (\<forall>x \<in> set xs. \<not> P x)"
  by (induction xs) auto

lemma created_credential_id_Some:
  assumes "created_credential_id m = Some i"
  shows "\<exists>nodes node c. AffectedNodes m = Some nodes \<and> node \<in> set nodes \<and>
      CreatedNode node = Some c \<and> LedgerEntryType c = Some ''Credential'' \<and>
      LedgerIndex c = Some i \<and> i \<noteq> []"
proof -
  from assms obtain nodes where n: "AffectedNodes m = Some nodes"
    by (auto simp: created_credential_id_def split: option.splits)
  from assms n obtain node where f: "find is_created_credential nodes = Some node"
    by (auto simp: created_credential_id_def split: option.splits)
  from assms n f obtain c where c: "CreatedNode node = Some c"
    by (auto simp: created_credential_id_def split: option.splits)
  from assms n f c have i: "LedgerIndex c = Some i" "i \<noteq> []"
    by (auto simp: created_credential_id_def split: option.splits if_splits)
  from find_Some_set [OF f] c have "node \<in> set nodes" "LedgerEntryType c = Some ''Credential''"
    by (auto simp: is_created_credential_def)
  with n c i show ?thesis by blast
qed

lemma created_credential_id_has:
  "created_credential_id m = Some i \<Longrightarrow> has_created_credential m"
proof -
  assume "created_credential_id m = Some i"
  from created_credential_id_Some [OF this] obtain nodes node c where
    "AffectedNodes m = Some nodes" "node \<in> set nodes" "CreatedNode node = Some c"
    "LedgerEntryType c = Some ''Credential''" "LedgerIndex c = Some i" "i \<noteq> []"
    by blast
  then show ?thesis
    by (auto simp: has_created_credential_def list_ex_iff truthy_def intro!: bexI [of _ node])
qed

lemma issue_first_node:
  assumes "AffectedNodes m = Some (pre @ node # post)"
    and "\<forall>n \<in> set pre. \<not> is_created_credential n"
    and "CreatedNode node = Some c" and "LedgerEntryType c = Some ''Credential''"
    and "LedgerIndex c = Some i" and "i \<noteq> []"
  shows "created_credential_id m = Some i"
proof -
  have "find is_created_credential (pre @ node # post) = Some node"
    using assms(2,3,4) by (induction pre) (auto simp: is_created_credential_def)
  then show ?thesis
    using assms by (simp add: created_credential_id_def)
qed


text \<open>
  The outcomes of \<^verbatim>\<open>issueCredential\<close>, once the create transaction is built and the
  submission returns metadata. It has submitted exactly that transaction. On
  \<^verbatim>\<open>tesSUCCESS\<close> it returns the \<^verbatim>\<open>LedgerIndex\<close> of the first created Credential
  node of the affected nodes, when that index is not empty. On any other non-empty result
  code it fails with \<^verbatim>\<open>Failed to issue credential\<close> carrying that code. On
  \<^verbatim>\<open>tesSUCCESS\<close> whose metadata has no created Credential entry with a
  \<^verbatim>\<open>LedgerIndex\<close> control leaves the success branch after the line that logs
  \<^verbatim>\<open>Credential issued successfully\<close> and reaches the \<^verbatim>\<open>throw\<close> below it, which
  is the one of a rejected submission.
\<close>

theorem issueCredential_result:
  assumes "issue_transaction wallet request = Inr t"
    and "meta result = MetaObject m"
  shows "fst (issueCredential wallet request (Inr result)) = [Submit (CredentialCreate t)] \<and>
     (TransactionResult m = ''tesSUCCESS'' \<and> AffectedNodes m = Some (pre @ node # post) \<and>
      (\<forall>n \<in> set pre. \<not> is_created_credential n) \<and> CreatedNode node = Some c \<and>
      LedgerEntryType c = Some ''Credential'' \<and> LedgerIndex c = Some i \<and> i \<noteq> [] \<longrightarrow>
        snd (issueCredential wallet request (Inr result)) = Inr i) \<and>
     (TransactionResult m \<noteq> ''tesSUCCESS'' \<and> TransactionResult m \<noteq> [] \<longrightarrow>
        snd (issueCredential wallet request (Inr result)) =
          Inl (Failed_to_issue (TransactionResult m))) \<and>
     (TransactionResult m = ''tesSUCCESS'' \<and> \<not> has_created_credential m \<longrightarrow>
        snd (issueCredential wallet request (Inr result)) = Inl (Failed_to_issue ''tesSUCCESS''))"
proof -
  have sent: "fst (issueCredential wallet request (Inr result)) = [Submit (CredentialCreate t)]"
    using assms by (simp add: issueCredential_def)
  have res: "snd (issueCredential wallet request (Inr result)) = issue_outcome (Inr result)"
    using assms by (simp add: issueCredential_def)
  have found: "snd (issueCredential wallet request (Inr result)) = Inr i"
    if "TransactionResult m = ''tesSUCCESS''" "AffectedNodes m = Some (pre @ node # post)"
      "\<forall>n \<in> set pre. \<not> is_created_credential n" "CreatedNode node = Some c"
      "LedgerEntryType c = Some ''Credential''" "LedgerIndex c = Some i" "i \<noteq> []"
    using issue_first_node [OF that(2-7)] that(1) assms(2)
    by (simp add: res issue_outcome_def)
  have rejected: "snd (issueCredential wallet request (Inr result)) =
      Inl (Failed_to_issue (TransactionResult m))"
    if "TransactionResult m \<noteq> ''tesSUCCESS''" "TransactionResult m \<noteq> []"
    using that assms(2) by (simp add: res issue_outcome_def or_unknown_def)
  have lacking: "snd (issueCredential wallet request (Inr result)) =
      Inl (Failed_to_issue ''tesSUCCESS'')"
    if "TransactionResult m = ''tesSUCCESS''" "\<not> has_created_credential m"
  proof -
    have "created_credential_id m = None"
      using that(2) created_credential_id_has [of m] by (cases "created_credential_id m") auto
    then show ?thesis
      using that(1) assms(2) by (simp add: res issue_outcome_def or_unknown_def)
  qed
  from sent found rejected lacking show ?thesis by blast
qed

lemma example_issue_transaction: "issue_transaction ''rIssuer'' example_request = Inr example_create"
  by (simp add: issue_transaction_def example_request_def example_create_def bind_err_def
      example_time_encoded hex_if_truthy_def)

theorem issueCredential_result_witness:
  "snd (issueCredential ''rIssuer'' example_request
      (Inr (example_meta ''tesSUCCESS''
         [example_node ''AccountRoot'' (Some ''AA''), example_node ''Credential'' (Some ''C0FFEE'')])))
     = Inr ''C0FFEE'' \<and>
   snd (issueCredential ''rIssuer'' example_request (Inr (example_meta ''tecDUPLICATE'' [])))
     = Inl (Failed_to_issue ''tecDUPLICATE'') \<and>
   snd (issueCredential ''rIssuer'' example_request
      (Inr (example_meta ''tesSUCCESS'' [example_node ''AccountRoot'' (Some ''AA'')])))
     = Inl (Failed_to_issue ''tesSUCCESS'')"
proof -
  note tx = example_issue_transaction
  have m: "meta (example_meta code nodes) =
      MetaObject \<lparr>TransactionResult = code, AffectedNodes = Some nodes\<rparr>" for code nodes
    by (simp add: example_meta_def)
  have 1: "snd (issueCredential ''rIssuer'' example_request
      (Inr (example_meta ''tesSUCCESS''
         [example_node ''AccountRoot'' (Some ''AA''), example_node ''Credential'' (Some ''C0FFEE'')])))
     = Inr ''C0FFEE''"
    using issueCredential_result [OF tx m,
        of "''tesSUCCESS''" "[example_node ''AccountRoot'' (Some ''AA''), example_node ''Credential'' (Some ''C0FFEE'')]"
           "[example_node ''AccountRoot'' (Some ''AA'')]" "example_node ''Credential'' (Some ''C0FFEE'')" "[]"
           "\<lparr>LedgerEntryType = Some ''Credential'', LedgerIndex = Some ''C0FFEE''\<rparr>" "''C0FFEE''"]
    by (simp add: example_node_def is_created_credential_def)
  have 2: "snd (issueCredential ''rIssuer'' example_request (Inr (example_meta ''tecDUPLICATE'' [])))
     = Inl (Failed_to_issue ''tecDUPLICATE'')"
    using issueCredential_result [OF tx m, of "''tecDUPLICATE''" "[]"]
    by simp
  have 3: "snd (issueCredential ''rIssuer'' example_request
      (Inr (example_meta ''tesSUCCESS'' [example_node ''AccountRoot'' (Some ''AA'')])))
     = Inl (Failed_to_issue ''tesSUCCESS'')"
    using issueCredential_result [OF tx m, of "''tesSUCCESS''" "[example_node ''AccountRoot'' (Some ''AA'')]"]
    by (simp add: has_created_credential_def example_node_def)
  from 1 2 3 show ?thesis by blast
qed

text \<open>
  Claim C1, at a successful result whose metadata lacks a created Credential entry. The
  claim asks for a distinct defensive error there. \<^verbatim>\<open>issueCredential\<close> logs
  \<^verbatim>\<open>Credential issued successfully\<close> and then raises the error of a rejected
  submission, \<^verbatim>\<open>Failed to issue credential: tesSUCCESS\<close>, with the success code in the
  place of the rejection code; a submission rejected with \<^verbatim>\<open>tecDUPLICATE\<close> raises the
  same error with its code.
\<close>

theorem issueCredential_lacking_entry_not_distinct:
  "snd (issueCredential ''rIssuer'' example_request (Inr (example_meta ''tesSUCCESS'' [])))
     = Inl (Failed_to_issue ''tesSUCCESS'') \<and>
   snd (issueCredential ''rIssuer'' example_request (Inr (example_meta ''tecDUPLICATE'' [])))
     = Inl (Failed_to_issue ''tecDUPLICATE'')"
  by (simp add: issueCredential_def example_issue_transaction issue_outcome_def example_meta_def
      created_credential_id_def or_unknown_def)

text \<open>
  Conversely, an identifier returned by \<^verbatim>\<open>issueCredential\<close> is always the non-empty
  \<^verbatim>\<open>LedgerIndex\<close> of a created Credential node of a \<^verbatim>\<open>tesSUCCESS\<close> result.
\<close>

theorem issueCredential_returns_created_index:
  "snd (issueCredential wallet request reply) = Inr i \<longrightarrow>
     (\<exists>result m nodes node c.
        reply = Inr result \<and> meta result = MetaObject m \<and>
        TransactionResult m = ''tesSUCCESS'' \<and> AffectedNodes m = Some nodes \<and>
        node \<in> set nodes \<and> CreatedNode node = Some c \<and>
        LedgerEntryType c = Some ''Credential'' \<and> LedgerIndex c = Some i \<and> i \<noteq> [])"
proof
  assume a: "snd (issueCredential wallet request reply) = Inr i"
  then have o: "issue_outcome reply = Inr i"
    by (auto simp: issueCredential_def split: sum.splits)
  then obtain result where r: "reply = Inr result"
    by (cases reply) (auto simp: issue_outcome_def)
  with o obtain m where m: "meta result = MetaObject m"
    by (cases "meta result") (auto simp: issue_outcome_def)
  with o r have s: "TransactionResult m = ''tesSUCCESS''" and c: "created_credential_id m = Some i"
    by (auto simp: issue_outcome_def split: if_splits option.splits)
  from created_credential_id_Some [OF c] r m s
  show "\<exists>result m nodes node c.
        reply = Inr result \<and> meta result = MetaObject m \<and>
        TransactionResult m = ''tesSUCCESS'' \<and> AffectedNodes m = Some nodes \<and>
        node \<in> set nodes \<and> CreatedNode node = Some c \<and>
        LedgerEntryType c = Some ''Credential'' \<and> LedgerIndex c = Some i \<and> i \<noteq> []"
    by blast
qed

theorem issueCredential_returns_created_index_witness:
  "snd (issueCredential ''rIssuer'' example_request
      (Inr (example_meta ''tesSUCCESS'' [example_node ''Credential'' (Some ''C0FFEE'')])))
     = Inr ''C0FFEE'' \<and> ''C0FFEE'' \<noteq> []"
proof -
  have "snd (issueCredential ''rIssuer'' example_request
      (Inr (example_meta ''tesSUCCESS'' [example_node ''Credential'' (Some ''C0FFEE'')])))
     = Inr ''C0FFEE''"
    by (simp add: issueCredential_def example_issue_transaction issue_outcome_def example_meta_def
        created_credential_id_def example_node_def is_created_credential_def)
  with issueCredential_returns_created_index [of "''rIssuer''" example_request
      "Inr (example_meta ''tesSUCCESS'' [example_node ''Credential'' (Some ''C0FFEE'')])" "''C0FFEE''"]
  show ?thesis by blast
qed

lemma is_hex_hexbytes: "is_hex h \<Longrightarrow> \<exists>b. hexbytes h = Some b"
proof (induction h rule: hexbytes.induct)
  case 1
  show ?case by simp
next
  case (2 a)
  then show ?case by (simp add: is_hex_def)
next
  case (3 a b r)
  from "3.prems" obtain x y where x: "hexval a = Some x" and y: "hexval b = Some y"
    and r: "is_hex r"
    by (auto simp: is_hex_def)
  from "3.IH" [OF x y r] obtain bs where "hexbytes r = Some bs" ..
  with x y show ?case by simp
qed

lemma decodeHex_is_hex: "is_hex h \<Longrightarrow> \<exists>b. decodeHex h = Inr b"
  using is_hex_hexbytes [of h] by (auto simp: decodeHex_def)

lemma decode_if_truthy_total: "opt_hex x \<Longrightarrow> \<exists>b. decode_if_truthy x = Inr b"
  using decodeHex_is_hex
  by (fastforce simp: opt_hex_def decode_if_truthy_def bind_err_Inr split: option.splits)

lemma is_hex_Nil: "is_hex []"
  by (simp add: is_hex_def)

lemma entry_memo_total:
  assumes w: "well_encoded e"
  shows "\<exists>m. entry_memo e = Inr m"
proof (cases "entry_Memos e")
  case None
  then show ?thesis by (simp add: entry_memo_def)
next
  case (Some ms)
  show ?thesis
  proof (cases ms)
    case Nil
    with Some show ?thesis by (simp add: entry_memo_def)
  next
    case (Cons x rest)
    show ?thesis
    proof (cases x)
      case None
      with Some Cons show ?thesis by (simp add: entry_memo_def)
    next
      case (Some m)
      from w Some Cons \<open>entry_Memos e = Some ms\<close>
      have h: "opt_hex (MemoData m)" "opt_hex (MemoType m)" "opt_hex (MemoFormat m)"
        by (simp_all add: well_encoded_def)
      from h(1) have "is_hex (case MemoData m of None \<Rightarrow> [] | Some d \<Rightarrow> d)"
        by (simp add: opt_hex_def is_hex_Nil split: option.splits)
      from decodeHex_is_hex [OF this] obtain d where
        d: "decodeHex (case MemoData m of None \<Rightarrow> [] | Some d \<Rightarrow> d) = Inr d" ..
      from decode_if_truthy_total [OF h(2)] obtain t where t: "decode_if_truthy (MemoType m) = Inr t" ..
      from decode_if_truthy_total [OF h(3)] obtain f where f: "decode_if_truthy (MemoFormat m) = Inr f" ..
      from Some Cons \<open>entry_Memos e = Some ms\<close> d t f show ?thesis
        by (simp add: entry_memo_def bind_err_def)
    qed
  qed
qed

lemma credential_of_entry_total: "well_encoded e \<Longrightarrow> \<exists>c. credential_of_entry e = Inr c"
proof -
  assume w: "well_encoded e"
  then have "is_hex (entry_CredentialType e)" "opt_hex (entry_URI e)"
    by (simp_all add: well_encoded_def)
  then obtain c u where "decodeHex (entry_CredentialType e) = Inr c"
    "decode_if_truthy (entry_URI e) = Inr u"
    using decodeHex_is_hex decode_if_truthy_total by blast
  moreover from entry_memo_total [OF w] obtain m where "entry_memo e = Inr m" ..
  ultimately show ?thesis
    by (simp add: credential_of_entry_def bind_err_def)
qed

lemma credential_of_entry_fields:
  "credential_of_entry e = Inr c \<Longrightarrow>
   subject c = entry_Subject e \<and> decodeHex (entry_CredentialType e) = Inr (credential c) \<and>
   entry_memo e = Inr (memo c)"
  by (auto simp: credential_of_entry_def bind_err_Inr)

lemma list_all2_rightD: "list_all2 P xs ys \<Longrightarrow> y \<in> set ys \<Longrightarrow> \<exists>x \<in> set xs. P x y"
  by (induction rule: list_all2_induct) auto

lemma set_credentials_for: "set (credentials_for subj objs) \<subseteq> set objs"
  by (auto simp: credentials_for_def split: option.splits)

lemma decodeHex_examples:
  "decodeHex ''4142'' = Inr ''AB''" "decodeHex ''4869'' = Inr ''Hi''"
  by code_simp+

lemma encodeText_examples:
  "encodeText ''AB'' = ''4142''" "encodeText ''Hi'' = ''4869''"
  by code_simp+

lemma is_hex_examples: "is_hex ''4142''" "is_hex ''4869''"
  by code_simp+

lemma example_entry_decoded:
  "credential_of_entry (example_entry s f) = Inr (example_credential s (bit f 16))"
  by (simp add: credential_of_entry_def example_entry_def example_credential_def bind_err_def
      decodeHex_examples decode_if_truthy_def entry_memo_def
      example_time_decoded accepted_bit)

lemma example_entry_well_encoded: "well_encoded (example_entry s f)"
  by (simp add: well_encoded_def example_entry_def opt_hex_def is_hex_examples)


lemma script_example_entry_decoded:
  "script_credential_of_entry (example_entry s f) =
     Inr ((example_credential s (bit f 16))\<lparr>memo := None\<rparr>)"
  by (simp add: script_credential_of_entry_def example_entry_def example_credential_def bind_err_def
      decodeHex_examples decode_if_truthy_def example_time_decoded accepted_bit)

text \<open>What the ledger sends is well encoded.\<close>

lemma is_hex_encodeText: "is_hex (encodeText b)"
proof (induction b)
  case Nil
  show ?case by (simp add: is_hex_def)
next
  case (Cons c cs)
  have hi: "(of_char c :: nat) div 16 < 16"
    using nat_of_char_less_256 [of c] by arith
  have lo: "(of_char c :: nat) mod 16 < 16"
    by simp
  from Cons.IH show ?case
    by (simp add: is_hex_def hexval_hexdigit [OF hi] hexval_hexdigit [OF lo])
qed

lemma opt_hex_encoded: "opt_hex (map_option encodeText x)"
  by (cases x) (simp_all add: opt_hex_def is_hex_encodeText)

lemma ledger_entry_well_encoded: "well_encoded (ledger_entry e)"
proof -
  have "opt_hex (MemoData (ledger_memo m)) \<and> opt_hex (MemoType (ledger_memo m)) \<and>
      opt_hex (MemoFormat (ledger_memo m))" for m
    by (simp add: ledger_memo_def opt_hex_encoded)
  then show ?thesis
    by (auto simp: well_encoded_def ledger_entry_def is_hex_encodeText opt_hex_encoded
        map_eq_Cons_conv split: option.splits list.splits)
qed

text \<open>The service decodes what the ledger sends for a stored credential to its value.\<close>

lemma decodeHex_encoded: "decodeHex (encodeText b) = Inr b"
  by (simp add: decodeHex_def hexbytes_encodeText)

lemma encodeText_empty: "encodeText v = [] \<longleftrightarrow> v = []"
  by (cases v) simp_all

lemma decode_if_truthy_encoded: "decode_if_truthy (map_option encodeText x) = Inr (present x)"
  by (cases x)
     (simp_all add: decode_if_truthy_def present_def encodeText_empty decodeHex_encoded
        bind_err_def)

lemma memo_of_ledger_memo:
  "bind_err (decodeHex (case MemoData (ledger_memo m) of None \<Rightarrow> [] | Some d \<Rightarrow> d)) (\<lambda>d.
   bind_err (decode_if_truthy (MemoType (ledger_memo m))) (\<lambda>t.
   bind_err (decode_if_truthy (MemoFormat (ledger_memo m))) (\<lambda>f.
     Inr (Some \<lparr>memo_data = d, memo_type = t, memo_format = f\<rparr>)))) = Inr (Some (memo_value m))"
proof -
  have d: "decodeHex (case MemoData (ledger_memo m) of None \<Rightarrow> [] | Some d \<Rightarrow> d) =
      Inr (case MemoData m of None \<Rightarrow> [] | Some d \<Rightarrow> d)"
  proof (cases "MemoData m")
    case None
    then show ?thesis by (simp add: ledger_memo_def decodeHex_def)
  next
    case (Some d)
    then show ?thesis by (simp add: ledger_memo_def decodeHex_encoded)
  qed
  have t: "decode_if_truthy (MemoType (ledger_memo m)) = Inr (present (MemoType m))"
    by (simp add: ledger_memo_def decode_if_truthy_encoded)
  have f: "decode_if_truthy (MemoFormat (ledger_memo m)) = Inr (present (MemoFormat m))"
    by (simp add: ledger_memo_def decode_if_truthy_encoded)
  show ?thesis
    by (simp add: d t f bind_err_def memo_value_def)
qed

lemma entry_memo_ledger: "entry_memo (ledger_entry e) = Inr (memo (credential_value e))"
proof (cases "entry_Memos e")
  case None
  then show ?thesis
    by (simp add: entry_memo_def ledger_entry_def credential_value_def)
next
  case (Some ms)
  note ms = this
  show ?thesis
  proof (cases ms)
    case Nil
    with ms show ?thesis
      by (simp add: entry_memo_def ledger_entry_def credential_value_def)
  next
    case (Cons x rest)
    show ?thesis
    proof (cases x)
      case None
      with ms Cons show ?thesis
        by (simp add: entry_memo_def ledger_entry_def credential_value_def)
    next
      case (Some m)
      with ms Cons show ?thesis
        by (simp add: entry_memo_def ledger_entry_def credential_value_def memo_of_ledger_memo)
    qed
  qed
qed

lemma credential_of_ledger_entry: "credential_of_entry (ledger_entry e) = Inr (credential_value e)"
proof -
  have f: "entry_Subject (ledger_entry e) = entry_Subject e"
    "entry_CredentialType (ledger_entry e) = encodeText (entry_CredentialType e)"
    "Flags (ledger_entry e) = Flags e"
    "entry_Expiration (ledger_entry e) = entry_Expiration e"
    "entry_URI (ledger_entry e) = map_option encodeText (entry_URI e)"
    by (simp_all add: ledger_entry_def)
  show ?thesis
    by (simp add: credential_of_entry_def f decodeHex_encoded decode_if_truthy_encoded
        entry_memo_ledger bind_err_def accepted_bit)
       (simp add: credential_value_def)
qed

lemma map_err_map: "(\<And>x. f (g x) = Inr (h x)) \<Longrightarrow> map_err f (map g xs) = Inr (map h xs)"
  by (induction xs) (simp_all add: bind_err_def)

lemma credentials_for_ledger:
  "credentials_for subj (map ledger_entry xs) = map ledger_entry (credentials_for subj xs)"
  by (simp add: credentials_for_def filter_map o_def ledger_entry_def split: option.splits)

lemma getCredentials_ledger:
  "getCredentials (Inr (Some (map ledger_entry stored))) subj =
     Inr (map credential_value (credentials_for subj stored))"
  using map_err_map [of credential_of_entry ledger_entry credential_value, OF credential_of_ledger_entry]
  by (simp add: getCredentials_def credentials_for_ledger)

lemma getCredentials_well_encoded:
  assumes w: "\<forall>e \<in> set objs. well_encoded e"
  shows "\<exists>cs. getCredentials (Inr (Some objs)) subj = Inr cs \<and>
      length cs = length (credentials_for subj objs)"
proof -
  have "\<exists>y. credential_of_entry x = Inr y" if "x \<in> set (credentials_for subj objs)" for x
    using that w set_credentials_for [of subj objs] credential_of_entry_total by blast
  then have "\<exists>cs. map_err credential_of_entry (credentials_for subj objs) = Inr cs"
    by (rule map_err_total)
  then obtain cs where cs: "map_err credential_of_entry (credentials_for subj objs) = Inr cs" ..
  from map_err_Inr [OF cs] have "length cs = length (credentials_for subj objs)"
    by (simp add: list_all2_lengthD)
  with cs show ?thesis
    by (simp add: getCredentials_def)
qed

lemma getCredentials_subject:
  assumes g: "getCredentials (Inr (Some objs)) (Some s) = Inr cs" and s: "s \<noteq> []"
  shows "\<forall>c \<in> set cs. subject c = s"
proof
  let ?kept = "credentials_for (Some s) objs"
  from g have cs: "map_err credential_of_entry ?kept = Inr cs"
    by (simp add: getCredentials_def)
  from map_err_Inr [OF cs] have l: "list_all2 (\<lambda>x y. credential_of_entry x = Inr y) ?kept cs" .
  fix c assume "c \<in> set cs"
  then obtain e where "e \<in> set ?kept" "credential_of_entry e = Inr c"
    using list_all2_rightD [OF l] by blast
  with s show "subject c = s"
    by (auto simp: credentials_for_def dest: credential_of_entry_fields)
qed

lemma example_stored_ledger: "ledger_entry (example_stored s f) = example_entry s f"
  by (simp add: ledger_entry_def example_stored_def example_entry_def ledger_memo_def
      encodeText_examples del: encodeText.simps)

lemma example_stored_value: "credential_value (example_stored s f) = example_credential s (bit f 16)"
  by (simp add: credential_value_def example_stored_def example_credential_def memo_value_def
      present_def example_time_decoded)

text \<open>
  Claim C4. \<^verbatim>\<open>getCredentials\<close> passes a transport error on, and on a reply that arrives
  it does not fail: for every list of entries that are encoded as the ledger encodes
  them it returns one credential for each kept entry. It returns the empty sequence, not
  an error, when the reply has no entries. What it returns for the entries the ledger
  sends for its stored credentials is, in order, the \<^verbatim>\<open>Credential\<close> value of each kept
  one, with its subject, credential type, accepted flag, expiration, URI and attached
  memo decoded; and with a subject filter every returned credential has the subject of
  the filter.
\<close>

theorem getCredentials_outcomes:
  "getCredentials (Inl msg) subj = Inl (TransportFailure msg) \<and>
   getCredentials (Inr None) subj = Inr [] \<and>
   getCredentials (Inr (Some [])) subj = Inr [] \<and>
   ((\<forall>e \<in> set objs. well_encoded e) \<longrightarrow>
      (\<exists>cs. getCredentials (Inr (Some objs)) subj = Inr cs \<and>
         length cs = length (credentials_for subj objs))) \<and>
   (\<forall>e \<in> set (map ledger_entry stored). well_encoded e) \<and>
   getCredentials (Inr (Some (map ledger_entry stored))) subj =
     Inr (map credential_value (credentials_for subj stored)) \<and>
   (getCredentials (Inr (Some objs)) (Some s) = Inr cs' \<and> s \<noteq> [] \<longrightarrow>
      (\<forall>c \<in> set cs'. subject c = s))"
proof -
  have a: "getCredentials (Inl msg) subj = Inl (TransportFailure msg)"
    by (simp add: getCredentials_def)
  have b: "getCredentials (Inr None) subj = Inr []"
    by (simp add: getCredentials_def)
  have c: "getCredentials (Inr (Some [])) subj = Inr []"
    by (simp add: getCredentials_def credentials_for_def split: option.splits)
  have d: "\<forall>e \<in> set (map ledger_entry stored). well_encoded e"
    by (simp add: ledger_entry_well_encoded)
  from a b c d getCredentials_well_encoded [of objs subj]
    getCredentials_ledger [of stored subj]
    getCredentials_subject [of objs s cs']
  show ?thesis by blast
qed

theorem getCredentials_outcomes_witness:
  "well_encoded (example_entry ''rAlice'' 0x00010000) \<and>
   well_encoded ((example_entry ''rBob'' 0)\<lparr>entry_URI := Some ''4869''\<rparr>) \<and>
   getCredentials
       (Inr (Some [example_entry ''rAlice'' 0x00010000,
                   (example_entry ''rBob'' 0)\<lparr>entry_URI := Some ''4869''\<rparr>]))
       (Some ''rBob'')
     = Inr [(example_credential ''rBob'' False)\<lparr>uri := Some ''Hi''\<rparr>] \<and>
   subject ((example_credential ''rBob'' False)\<lparr>uri := Some ''Hi''\<rparr>) = ''rBob''"
proof -
  let ?bob = "(example_stored ''rBob'' 0)\<lparr>entry_URI := Some ''Hi''\<rparr>"
  let ?stored = "[example_stored ''rAlice'' 0x00010000, ?bob]"
  let ?objs = "[example_entry ''rAlice'' 0x00010000,
      (example_entry ''rBob'' 0)\<lparr>entry_URI := Some ''4869''\<rparr>]"
  let ?cred = "(example_credential ''rBob'' False)\<lparr>uri := Some ''Hi''\<rparr>"
  have lb: "ledger_entry ?bob = (example_entry ''rBob'' 0)\<lparr>entry_URI := Some ''4869''\<rparr>"
    by (simp add: ledger_entry_def example_stored_def example_entry_def ledger_memo_def
        encodeText_examples del: encodeText.simps)
  have l: "map ledger_entry ?stored = ?objs"
    by (simp add: example_stored_ledger lb)
  have k: "credentials_for (Some ''rBob'') ?stored = [?bob]"
    by (simp add: credentials_for_def example_stored_def)
  have vb: "credential_value ?bob = ?cred"
    by (simp add: credential_value_def example_stored_def example_credential_def memo_value_def
        present_def example_time_decoded)
  note t = getCredentials_outcomes [where subj = "Some ''rBob''" and objs = ?objs
      and stored = ?stored and s = "''rBob''" and cs' = "[?cred]"]
  from t have w: "\<forall>e \<in> set ?objs. well_encoded e"
    by (simp only: l) simp
  from t have g: "getCredentials (Inr (Some ?objs)) (Some ''rBob'') = Inr [?cred]"
    by (simp only: l k) (simp add: vb)
  with t have "\<forall>c \<in> set [?cred]. subject c = ''rBob''"
    by blast
  with w g show ?thesis by simp
qed

text \<open>
  Claim C5. In the list returned by \<^verbatim>\<open>getCredentials\<close> (the service's and the
  revocation script's alike) the \<open>accepted\<close> field of each credential is bit 16
  (\<^verbatim>\<open>0x00010000\<close>) of the \<open>Flags\<close> field of the entry it was decoded from.
\<close>

theorem accepted_from_flag_bit:
  "(getCredentials (Inr (Some objs)) subj = Inr cs \<longrightarrow>
      map accepted cs = map (\<lambda>e. bit (Flags e) 16) (credentials_for subj objs)) \<and>
   (script_getCredentials (Inr (Some objs)) = Inr cs' \<longrightarrow>
      map accepted cs' =
        map (\<lambda>e. bit (Flags e) 16)
          (filter (\<lambda>obj. entry_LedgerEntryType obj = Some ''Credential'') objs))"
proof -
  have s: "script_credential_of_entry e = Inr c \<Longrightarrow> accepted c = bit (Flags e) 16" for e c
    by (auto simp: script_credential_of_entry_def bind_err_Inr accepted_bit)
  have g: "map_err f xs = Inr ys \<Longrightarrow> (\<And>x y. f x = Inr y \<Longrightarrow> accepted y = bit (Flags x) 16) \<Longrightarrow>
      map accepted ys = map (\<lambda>e. bit (Flags e) 16) xs" for f xs ys
    by (drule map_err_Inr) (auto simp: list_all2_conv_all_nth intro!: nth_equalityI)
  show ?thesis
    using g [of credential_of_entry, OF _ credential_of_entry_accepted] g [of script_credential_of_entry, OF _ s]
    by (auto simp: getCredentials_def script_getCredentials_def)
qed

theorem accepted_from_flag_bit_witness:
  "getCredentials (Inr (Some [example_entry ''rAlice'' 0x00010000, example_entry ''rBob'' 0x00020000])) None
     = Inr [example_credential ''rAlice'' True, example_credential ''rBob'' False] \<and>
   map accepted [example_credential ''rAlice'' True, example_credential ''rBob'' False] =
     map (\<lambda>e. bit (Flags e) 16) [example_entry ''rAlice'' 0x00010000, example_entry ''rBob'' 0x00020000] \<and>
   script_getCredentials (Inr (Some [example_entry ''rAlice'' 0x00010000, example_entry ''rBob'' 0x00020000]))
     = Inr [(example_credential ''rAlice'' True)\<lparr>memo := None\<rparr>,
            (example_credential ''rBob'' False)\<lparr>memo := None\<rparr>] \<and>
   map accepted [(example_credential ''rAlice'' True)\<lparr>memo := None\<rparr>,
            (example_credential ''rBob'' False)\<lparr>memo := None\<rparr>] =
     map (\<lambda>e. bit (Flags e) 16) [example_entry ''rAlice'' 0x00010000, example_entry ''rBob'' 0x00020000]"
proof -
  let ?objs = "[example_entry ''rAlice'' 0x00010000, example_entry ''rBob'' 0x00020000]"
  let ?cs = "[example_credential ''rAlice'' True, example_credential ''rBob'' False]"
  let ?cs' = "[(example_credential ''rAlice'' True)\<lparr>memo := None\<rparr>,
            (example_credential ''rBob'' False)\<lparr>memo := None\<rparr>]"
  have g: "getCredentials (Inr (Some ?objs)) None = Inr ?cs"
    by (simp add: getCredentials_def credentials_for_def example_entry_decoded bind_err_def)
  have s: "script_getCredentials (Inr (Some ?objs)) = Inr ?cs'"
    by (simp add: script_getCredentials_def script_example_entry_decoded bind_err_def)
       (simp add: example_entry_def)
  have k: "credentials_for None ?objs = ?objs"
    by (simp add: credentials_for_def)
  have f: "filter (\<lambda>obj. entry_LedgerEntryType obj = Some ''Credential'') ?objs = ?objs"
    by (simp add: example_entry_def)
  from accepted_from_flag_bit [of ?objs None ?cs ?cs'] g s k f show ?thesis
    by simp
qed


subsection \<open>Revocation\<close>

lemma find_first:
  "\<forall>x \<in> set pre. \<not> P x \<Longrightarrow> P c \<Longrightarrow> find P (pre @ c # post) = Some c"
  by (induction pre) auto

text \<open>
  Claim C2, as amended. A call of \<^verbatim>\<open>revokeCredential\<close> with a credential type and with
  neither subject nor issuer reads the credential list first. When no listed credential
  has the type it fails with a not-found error (\<^verbatim>\<open>Credential to revoke not found\<close> on
  an empty list, \<^verbatim>\<open>Credential of type ... not found\<close> otherwise) and submits nothing.
  Otherwise it submits a delete transaction whose \<open>Subject\<close> is the subject of the first
  listed credential of the type, with no \<open>Issuer\<close>, whether or not further credentials
  of the type follow, and returns what the submission gives.
\<close>

theorem revokeCredential_auto_discovery:
  assumes "ctype \<noteq> []" and "\<not> truthy subj" and "\<not> truthy iss"
    and "getCredentials objects None = Inr credentials"
  shows
    "((\<forall>c \<in> set credentials. credential c \<noteq> ctype) \<longrightarrow>
        fst (revokeCredential wallet objects reply ctype subj iss) =
          [credentials_request wallet] \<and>
        snd (revokeCredential wallet objects reply ctype subj iss) =
          (if credentials = [] then Inl Revoke_not_found else Inl (Type_not_found ctype))) \<and>
     (credentials = pre @ c # post \<and> (\<forall>x \<in> set pre. credential x \<noteq> ctype) \<and>
      credential c = ctype \<longrightarrow>
        revokeCredential wallet objects reply ctype subj iss =
          ([credentials_request wallet,
            Submit (CredentialDelete
              \<lparr>Account = wallet, CredentialType = encodeText ctype,
               Subject = Some (subject c), Issuer = None\<rparr>)],
           revoke_outcome reply))"
proof -
  have none: "fst (revokeCredential wallet objects reply ctype subj iss) =
          [credentials_request wallet] \<and>
        snd (revokeCredential wallet objects reply ctype subj iss) =
          (if credentials = [] then Inl Revoke_not_found else Inl (Type_not_found ctype))"
    if "\<forall>c \<in> set credentials. credential c \<noteq> ctype"
  proof -
    from that have "find (\<lambda>cred. credential cred = ctype) credentials = None"
      by (simp add: find_None_all)
    with assms show ?thesis
      by (simp add: revokeCredential_def)
  qed
  have first: "revokeCredential wallet objects reply ctype subj iss =
          ([credentials_request wallet,
            Submit (CredentialDelete
              \<lparr>Account = wallet, CredentialType = encodeText ctype,
               Subject = Some (subject c), Issuer = None\<rparr>)],
           revoke_outcome reply)"
    if "credentials = pre @ c # post" "\<forall>x \<in> set pre. credential x \<noteq> ctype"
      "credential c = ctype"
  proof -
    from that have "find (\<lambda>cred. credential cred = ctype) credentials = Some c"
      by (simp add: find_first)
    with assms that(1) show ?thesis
      by (simp add: revokeCredential_def)
  qed
  from none first show ?thesis by blast
qed

lemma example_list:
  "getCredentials (Inr (Some [example_entry ''rAlice'' 0, example_entry ''rBob'' 0])) None =
     Inr [example_credential ''rAlice'' False, example_credential ''rBob'' False]"
  by (simp add: getCredentials_def credentials_for_def example_entry_decoded bind_err_def)

theorem revokeCredential_auto_discovery_witness:
  "revokeCredential ''rIssuer'' (Inr (Some [example_entry ''rAlice'' 0, example_entry ''rBob'' 0]))
       (Inr (example_meta ''tesSUCCESS'' [])) ''XY'' None None
     = ([credentials_request ''rIssuer''], Inl (Type_not_found ''XY'')) \<and>
   revokeCredential ''rIssuer'' (Inr (Some [])) (Inr (example_meta ''tesSUCCESS'' [])) ''AB'' None None
     = ([credentials_request ''rIssuer''], Inl Revoke_not_found) \<and>
   revokeCredential ''rIssuer'' (Inr (Some [example_entry ''rAlice'' 0]))
       (Inr (example_meta ''tesSUCCESS'' [])) ''AB'' None None
     = ([credentials_request ''rIssuer'',
         Submit (CredentialDelete
           \<lparr>Account = ''rIssuer'', CredentialType = encodeText ''AB'',
            Subject = Some ''rAlice'', Issuer = None\<rparr>)],
        Inr ''E3FE6EA3'')"
proof -
  have t: "\<not> truthy None" by (simp add: truthy_def)
  have e: "getCredentials (Inr (Some [])) None = Inr []"
    by (simp add: getCredentials_def credentials_for_def)
  have o: "getCredentials (Inr (Some [example_entry ''rAlice'' 0])) None =
      Inr [example_credential ''rAlice'' False]"
    by (simp add: getCredentials_def credentials_for_def example_entry_decoded bind_err_def)
  have ok: "revoke_outcome (Inr (example_meta ''tesSUCCESS'' [])) = Inr ''E3FE6EA3''"
    by (simp add: revoke_outcome_def example_meta_def)
  have 1: "revokeCredential ''rIssuer'' (Inr (Some [example_entry ''rAlice'' 0, example_entry ''rBob'' 0]))
       (Inr (example_meta ''tesSUCCESS'' [])) ''XY'' None None
     = ([credentials_request ''rIssuer''], Inl (Type_not_found ''XY''))"
    using revokeCredential_auto_discovery [OF _ t t example_list, where ctype = "''XY''"
        and wallet = "''rIssuer''" and reply = "Inr (example_meta ''tesSUCCESS'' [])"]
    by (simp add: example_credential_def prod_eq_iff)
  have 2: "revokeCredential ''rIssuer'' (Inr (Some [])) (Inr (example_meta ''tesSUCCESS'' [])) ''AB'' None None
     = ([credentials_request ''rIssuer''], Inl Revoke_not_found)"
    using revokeCredential_auto_discovery [OF _ t t e, where ctype = "''AB''"
        and wallet = "''rIssuer''" and reply = "Inr (example_meta ''tesSUCCESS'' [])"]
    by (simp add: prod_eq_iff)
  have 3: "revokeCredential ''rIssuer'' (Inr (Some [example_entry ''rAlice'' 0]))
       (Inr (example_meta ''tesSUCCESS'' [])) ''AB'' None None
     = ([credentials_request ''rIssuer'',
         Submit (CredentialDelete
           \<lparr>Account = ''rIssuer'', CredentialType = encodeText ''AB'',
            Subject = Some ''rAlice'', Issuer = None\<rparr>)],
        Inr ''E3FE6EA3'')"
    using revokeCredential_auto_discovery [OF _ t t o, where ctype = "''AB''" and pre = "[]"
        and c = "example_credential ''rAlice'' False" and post = "[]"
        and wallet = "''rIssuer''" and reply = "Inr (example_meta ''tesSUCCESS'' [])"]
    by (simp add: example_credential_def ok)
  from 1 2 3 show ?thesis by blast
qed

text \<open>
  Claim C2 as stated also asks for a failure when more than one credential matches. With
  two credentials of the type the call does not fail: it deletes the first one's.
\<close>

theorem revokeCredential_two_matches_succeeds:
  "revokeCredential ''rIssuer'' (Inr (Some [example_entry ''rAlice'' 0, example_entry ''rBob'' 0]))
       (Inr (example_meta ''tesSUCCESS'' [])) ''AB'' None None
     = ([credentials_request ''rIssuer'',
         Submit (CredentialDelete
           \<lparr>Account = ''rIssuer'', CredentialType = encodeText ''AB'',
            Subject = Some ''rAlice'', Issuer = None\<rparr>)],
        Inr ''E3FE6EA3'')"
  by (simp add: revokeCredential_def truthy_def example_list revoke_outcome_def example_meta_def)
     (simp add: example_credential_def)

text \<open>
  Claim C10. When both a subject and an issuer are supplied, the delete transaction that
  \<^verbatim>\<open>revokeCredential\<close> submits carries the subject as its only addressing field: the
  \<open>Issuer\<close> field is absent and the issuer argument has no effect.
\<close>

theorem revokeCredential_subject_precedence:
  "ctype \<noteq> [] \<and> subj \<noteq> [] \<and> iss \<noteq> [] \<longrightarrow>
   revokeCredential wallet objects reply ctype (Some subj) (Some iss) =
     ([Submit (CredentialDelete
         \<lparr>Account = wallet, CredentialType = encodeText ctype,
          Subject = Some subj, Issuer = None\<rparr>)],
      revoke_outcome reply)"
  by (simp add: revokeCredential_def truthy_def)

theorem revokeCredential_subject_precedence_witness:
  "revokeCredential ''rIssuer'' (Inr None) (Inr (example_meta ''tesSUCCESS'' []))
       ''AB'' (Some ''rAlice'') (Some ''rIssuer'') =
     ([Submit (CredentialDelete
         \<lparr>Account = ''rIssuer'', CredentialType = encodeText ''AB'',
          Subject = Some ''rAlice'', Issuer = None\<rparr>)],
      Inr ''E3FE6EA3'')"
  using revokeCredential_subject_precedence [where ctype = "''AB''" and subj = "''rAlice''"
      and iss = "''rIssuer''" and wallet = "''rIssuer''" and objects = "Inr None"
      and reply = "Inr (example_meta ''tesSUCCESS'' [])"]
  by (simp add: revoke_outcome_def example_meta_def)


text \<open>
  The remaining modes of \<^verbatim>\<open>revokeCredential\<close>: an empty credential type is refused
  before any remote call, and with an issuer but no subject the delete transaction is
  addressed by \<open>Issuer\<close> alone.
\<close>

theorem revokeCredential_other_modes:
  "fst (revokeCredential wallet objects reply [] subj iss) = [] \<and>
   snd (revokeCredential wallet objects reply [] subj iss) = Inl Type_not_specified \<and>
   (ctype \<noteq> [] \<and> \<not> truthy subj \<and> i \<noteq> [] \<longrightarrow>
      revokeCredential wallet objects reply ctype subj (Some i) =
        ([Submit (CredentialDelete
            \<lparr>Account = wallet, CredentialType = encodeText ctype,
             Subject = None, Issuer = Some i\<rparr>)],
         revoke_outcome reply))"
  by (simp add: revokeCredential_def truthy_def)

theorem revokeCredential_other_modes_witness:
  "revokeCredential ''rIssuer'' (Inr None) (Inr (example_meta ''tecNO_ENTRY'' [])) ''AB'' None
       (Some ''rIssuer'') =
     ([Submit (CredentialDelete
         \<lparr>Account = ''rIssuer'', CredentialType = encodeText ''AB'',
          Subject = None, Issuer = Some ''rIssuer''\<rparr>)],
      Inl (Failed_to_revoke ''tecNO_ENTRY''))"
  using revokeCredential_other_modes [where ctype = "''AB''" and subj = None and i = "''rIssuer''"
      and wallet = "''rIssuer''" and objects = "Inr None"
      and reply = "Inr (example_meta ''tecNO_ENTRY'' [])"]
  by (simp add: truthy_def revoke_outcome_def example_meta_def or_unknown_def)

section \<open>Properties of the scenarios and of deposit authorization\<close>

lemma deposit_bit: "((w :: 32 word) AND 0x01000000 \<noteq> 0) = bit w 24"
proof -
  have "(0x01000000 :: 32 word) = 2 ^ 24" by simp
  then show ?thesis
    by (simp only: and_exp_eq_0_iff_not_bit) simp
qed

lemma deposit_bit_set: "bit ((w :: 32 word) OR 0x01000000) 24"
proof -
  have "(0x01000000 :: 32 word) = 2 ^ 24" by simp
  then show ?thesis
    by (simp only: bit_or_iff bit_exp_iff) simp
qed

lemma deposit_bit_changes: "\<not> bit (w :: 32 word) 24 \<Longrightarrow> w OR 0x01000000 \<noteq> w"
  using deposit_bit_set [of w] by auto

lemma depositAuth_call_enabled:
  "bit flags 24 \<Longrightarrow>
   depositAuth_call wallet code flags = (([Request ''account_info'' wallet []], Inr False), flags)"
  by (simp add: depositAuth_call_def checkAndEnableDepositAuth_def deposit_bit ledger_apply_def)

lemma depositAuth_call_disabled:
  "\<not> bit flags 24 \<Longrightarrow>
   depositAuth_call wallet code flags =
     (([Request ''account_info'' wallet [],
        Submit (AccountSet \<lparr>set_Account = wallet, SetFlag = 9\<rparr>)],
       if code = ''tesSUCCESS'' then Inr True else Inl Failed_to_enable_DepositAuth),
      if code = ''tesSUCCESS'' then flags OR 0x01000000 else flags)"
  by (simp add: depositAuth_call_def checkAndEnableDepositAuth_def deposit_bit ledger_apply_def
      ledger_response_def)

text \<open>
  Claim C6. One call of \<^verbatim>\<open>checkAndEnableDepositAuth\<close> submits a transaction, the
  \<^verbatim>\<open>AccountSet\<close> with \<^verbatim>\<open>SetFlag: 9\<close> and no other, exactly when the \<^verbatim>\<open>0x01000000\<close> bit
  of the account's flags is unset; it returns \<open>True\<close> exactly when the flags changed, and
  the change is that bit; and after a call that returned (\<open>True\<close> or \<open>False\<close>), a second
  call on the same account returns \<open>False\<close>, submits no transaction and leaves the flags
  as they are, whatever the ledger would have answered.
\<close>

theorem checkAndEnableDepositAuth_idempotent:
  assumes "depositAuth_call wallet code flags = ((calls, outcome), flags')"
  shows "(Submit (AccountSet \<lparr>set_Account = wallet, SetFlag = 9\<rparr>) \<in> set calls
            \<longleftrightarrow> flags AND 0x01000000 = 0) \<and>
         (\<forall>tx. Submit tx \<in> set calls \<longrightarrow> tx = AccountSet \<lparr>set_Account = wallet, SetFlag = 9\<rparr>) \<and>
         (outcome = Inr True \<longleftrightarrow> flags' \<noteq> flags) \<and>
         (flags' \<noteq> flags \<longrightarrow> flags' = flags OR 0x01000000) \<and>
         (outcome = Inr b \<longrightarrow>
            depositAuth_call wallet code' flags' =
              (([Request ''account_info'' wallet []], Inr False), flags'))"
proof (cases "bit flags 24")
  case True
  with assms have "calls = [Request ''account_info'' wallet []]" "outcome = Inr False" "flags' = flags"
    by (simp_all add: depositAuth_call_enabled)
  with True show ?thesis
    using deposit_bit [of flags] by (simp add: depositAuth_call_enabled)
next
  case False
  with assms have c: "calls = [Request ''account_info'' wallet [],
        Submit (AccountSet \<lparr>set_Account = wallet, SetFlag = 9\<rparr>)]"
    and o: "outcome = (if code = ''tesSUCCESS'' then Inr True else Inl Failed_to_enable_DepositAuth)"
    and f: "flags' = (if code = ''tesSUCCESS'' then flags OR 0x01000000 else flags)"
    by (simp_all add: depositAuth_call_disabled)
  show ?thesis
  proof (cases "code = ''tesSUCCESS''")
    case True
    with f have "bit flags' 24" by (simp add: deposit_bit_set)
    with c o f True False show ?thesis
      using deposit_bit [of flags] deposit_bit_changes [of flags]
      by (simp add: depositAuth_call_enabled)
  next
    case no: False
    with c o f False show ?thesis
      using deposit_bit [of flags] by simp
  qed
qed

theorem checkAndEnableDepositAuth_idempotent_witness:
  "depositAuth_call ''rVerity'' ''tesSUCCESS'' 0x00800000 =
     (([Request ''account_info'' ''rVerity'' [],
        Submit (AccountSet \<lparr>set_Account = ''rVerity'', SetFlag = 9\<rparr>)], Inr True), 0x01800000) \<and>
   depositAuth_call ''rVerity'' ''tesSUCCESS'' 0x01800000 =
     (([Request ''account_info'' ''rVerity'' []], Inr False), 0x01800000)"
proof -
  have 1: "depositAuth_call ''rVerity'' ''tesSUCCESS'' 0x00800000 =
     (([Request ''account_info'' ''rVerity'' [],
        Submit (AccountSet \<lparr>set_Account = ''rVerity'', SetFlag = 9\<rparr>)], Inr True), 0x01800000)"
    by (simp add: depositAuth_call_def checkAndEnableDepositAuth_def ledger_apply_def
        ledger_response_def)
  from checkAndEnableDepositAuth_idempotent [OF 1, where b = True and code' = "''tesSUCCESS''"]
  show ?thesis
    using 1 by simp
qed

text \<open>
  Claim C7, as amended. \<^verbatim>\<open>getCredentialTypePreauths\<close> makes one read-only
  \<^verbatim>\<open>account_objects\<close> request and no submission, and returns, in order, one
  \<open>{issuer, credentialType}\<close> pair for every element of every \<open>AuthorizeCredentials\<close>
  list of the account's entries; the \<open>credentialType\<close> of a pair is the stored text itself,
  in its hex wire encoding.
\<close>

theorem getCredentialTypePreauths_returns_wire_entries:
  "getCredentialTypePreauths address (Inr (Some objs)) =
     ([Request ''account_objects'' address ''deposit_preauth''],
      Inr (map (\<lambda>cred. \<lparr>issuer = auth_Issuer cred, credentialType = auth_CredentialType cred\<rparr>)
             (concat (map (\<lambda>obj. case AuthorizeCredentials obj of None \<Rightarrow> [] | Some cs \<Rightarrow> cs)
                objs))))"
proof -
  have "concat (map (\<lambda>obj. case AuthorizeCredentials obj of None \<Rightarrow> []
            | Some credentials \<Rightarrow> map f credentials)
          (filter (\<lambda>obj. AuthorizeCredentials obj \<noteq> None) objs)) =
        map f (concat (map (\<lambda>obj. case AuthorizeCredentials obj of None \<Rightarrow> [] | Some cs \<Rightarrow> cs) objs))"
    for f :: "authorized_credential \<Rightarrow> credential_type_preauth"
    by (induction objs) (auto split: option.splits)
  then show ?thesis
    by (simp add: getCredentialTypePreauths_def preauths_request_def)
qed

text \<open>
  Claim C7 as stated has the credential type translated back from hex. For an entry that
  stores \<^verbatim>\<open>4142\<close>, the encoding of \<^verbatim>\<open>"AB"\<close>, the function returns \<^verbatim>\<open>4142\<close>.
\<close>

theorem getCredentialTypePreauths_not_decoded:
  "snd (getCredentialTypePreauths ''rVerity'' (Inr (Some [example_preauth]))) =
     Inr [\<lparr>issuer = ''rIssuer'', credentialType = ''4142''\<rparr>] \<and>
   decodeHex ''4142'' = Inr ''AB'' \<and> ''4142'' \<noteq> ''AB''"
  by (simp add: getCredentialTypePreauths_def example_preauth_def decodeHex_examples)

text \<open>
  With an issuer address set, the scenario reports success on every reply that carries
  metadata, whatever the result code in it.
\<close>

lemma accept_reports_success_on_any_code:
  "iss \<noteq> [] \<Longrightarrow> meta result = MetaObject m \<Longrightarrow>
   snd (runCredentialAcceptScenario alice (Some iss) ctype (Inr result)) =
     Acceptance_successful (hash result) (TransactionResult m)"
  by (simp add: runCredentialAcceptScenario_def)

text \<open>
  Claim C3 at a rejected submission. The accept transaction names the issuer and the
  hex-encoded credential type and has no subject field; but when the ledger answers
  \<^verbatim>\<open>tecNO_ENTRY\<close> the scenario still reports success, with the hash and the code, and
  raises nothing.
\<close>

theorem accept_reports_success_on_rejection:
  "runCredentialAcceptScenario ''rAlice'' (Some ''rIssuer'') ''AB''
       (Inr (example_meta ''tecNO_ENTRY'' [])) =
     ([Submit (CredentialAccept
         \<lparr>accept_Account = ''rAlice'', accept_Issuer = ''rIssuer'',
          accept_CredentialType = encodeText ''AB''\<rparr>)],
      Acceptance_successful ''E3FE6EA3'' ''tecNO_ENTRY'')"
  by (simp add: runCredentialAcceptScenario_def example_meta_def)


end
